theory Spec2Isabelle
  imports Complex_Main
begin

section \<open>Python values, exceptions and the outside world\<close>

text \<open>
  The assistant is Python code around three external collaborators: the Chroma vector
  store (with its embedding provider), the chat model and the text splitter. Every
  exception the code can see is a value of \<open>exn\<close>; a call that may raise returns
  \<open>exn + 'a\<close> with \<open>Inl\<close> for the exception.
\<close>

datatype exn =
    KeyError string
  | AttributeError string string
  | JSONDecodeError string
  | TypeError string
  | EOFError
  | ProviderError string

text \<open>\<^verbatim>\<open>str(e)\<close>, as the status and message strings use it.\<close>

fun str_exn :: "exn \<Rightarrow> string" where
  "str_exn (KeyError k) = [CHR 0x27] @ k @ [CHR 0x27]"
| "str_exn (AttributeError t a) =
     [CHR 0x27] @ t @ [CHR 0x27] @ '' object has no attribute '' @ [CHR 0x27] @ a @ [CHR 0x27]"
| "str_exn (JSONDecodeError m) = m"
| "str_exn (TypeError m) = m"
| "str_exn EOFError = []"
| "str_exn (ProviderError m) = m"

text \<open>\<^verbatim>\<open>sep.join(parts)\<close>.\<close>

fun join :: "string \<Rightarrow> string list \<Rightarrow> string" where
  "join sep [] = []"
| "join sep [x] = x"
| "join sep (x # y # ys) = x @ sep @ join sep (y # ys)"

text \<open>
  What \<^verbatim>\<open>json.loads\<close> can return: \<^verbatim>\<open>None\<close>, a truth value, a number, a string,
  a list or a dictionary (its items in order).
\<close>

datatype json =
    JNull
  | JBool bool
  | JInt int
  | JFloat real
  | JString string
  | JArray "json list"
  | JObject "(string \<times> json) list"

text \<open>A LangChain \<^verbatim>\<open>Document\<close>: its text and its metadata dictionary.\<close>

record document =
  page_content :: string
  metadata :: "string \<rightharpoonup> string"

text \<open>
  What a run leaves behind outside the process: the persisted collections, keyed by
  persistence directory and collection name, and the calls issued to the chat model and
  to the stores' \<^verbatim>\<open>add_documents\<close>, oldest first.
\<close>

datatype event =
    LlmInvoke string
  | AddDocuments string "document list"

record world =
  disk :: "string \<times> string \<rightharpoonup> document list"
  trace :: "event list"

text \<open>
  A \<^verbatim>\<open>pathlib.Path\<close> with the attributes the code reads: \<^verbatim>\<open>str(p)\<close>,
  \<^verbatim>\<open>p.name\<close> and \<^verbatim>\<open>p.suffix\<close>.
\<close>

record path =
  path_str :: string
  name :: string
  suffix :: string

text \<open>
  The collaborators' answers are parameters of the model. \<open>search_error\<close>,
  \<open>add_error\<close>, \<open>get_error\<close> and \<open>reset_error\<close> give the exception (if any) that the
  store or its embedding provider raises for a collection name and an argument;
  \<open>distance\<close> is the distance between the embeddings of a query and of a stored text;
  \<open>llm\<close> is \<^verbatim>\<open>llm.invoke(...).content\<close> for a prompt; \<open>split_text\<close> is the
  recursive character splitter; \<open>pdf_text\<close> and \<open>txt_text\<close> are what reading a file
  gives before it is stripped (the page texts, each followed by a newline, for a PDF), or
  the exception raised; \<open>dir_exists\<close> and \<open>glob\<close> are the directory listing, \<open>glob\<close>
  taking the directory and the extension of the pattern \<^verbatim>\<open>*<extension>\<close>;
  \<open>json_loads\<close> is \<^verbatim>\<open>json.loads\<close>; \<open>sample_chunks\<close> is the random choice of
  chunk texts that a sampling method of the store manager would make.
\<close>

record env =
  search_error :: "string \<Rightarrow> string \<Rightarrow> exn option"
  distance :: "string \<Rightarrow> string \<Rightarrow> nat"
  add_error :: "string \<Rightarrow> document list \<Rightarrow> exn option"
  get_error :: "string \<Rightarrow> exn option"
  reset_error :: "string \<Rightarrow> exn option"
  llm :: "string \<Rightarrow> exn + string"
  split_text :: "string \<Rightarrow> string list"
  pdf_text :: "string \<Rightarrow> exn + string"
  txt_text :: "string \<Rightarrow> exn + string"
  dir_exists :: "string \<Rightarrow> bool"
  glob :: "string \<Rightarrow> string \<Rightarrow> path list"
  json_loads :: "string \<Rightarrow> exn + json"
  sample_chunks :: "nat \<Rightarrow> document list \<Rightarrow> string list"

section \<open>The Chroma collections\<close>

text \<open>
  \<^verbatim>\<open>Chroma(collection_name=..., persist_directory=...)\<close> opens the collection of
  that name in that directory and creates it, empty, when it is not there yet. The handle
  is the pair of directory and name.
\<close>

definition Chroma :: "string \<Rightarrow> string \<Rightarrow> world \<Rightarrow> (string \<times> string) \<times> world" where
  "Chroma collection_name persist_directory w =
     ((persist_directory, collection_name),
      (case disk w (persist_directory, collection_name) of
         None \<Rightarrow> w\<lparr>disk := (disk w)((persist_directory, collection_name) \<mapsto> [])\<rparr>
       | Some _ \<Rightarrow> w))"

definition collection :: "world \<Rightarrow> string \<times> string \<Rightarrow> document list" where
  "collection w store = (case disk w store of None \<Rightarrow> [] | Some docs \<Rightarrow> docs)"

text \<open>\<^verbatim>\<open>store.add_documents(docs)\<close>: one call, appended to the collection unless it raises.\<close>

definition add_documents ::
  "env \<Rightarrow> string \<times> string \<Rightarrow> document list \<Rightarrow> world \<Rightarrow> (exn + unit) \<times> world" where
  "add_documents E store docs w =
     (let w' = w\<lparr>trace := trace w @ [AddDocuments (snd store) docs]\<rparr> in
      case add_error E (snd store) docs of
        Some e \<Rightarrow> (Inl e, w')
      | None \<Rightarrow> (Inr (), w'\<lparr>disk := (disk w')(store \<mapsto> collection w' store @ docs)\<rparr>))"

text \<open>\<^verbatim>\<open>store.as_retriever(search_kwargs={"k": k}).invoke(query)\<close>: the k nearest, best first.\<close>

definition similarity_search ::
  "env \<Rightarrow> string \<times> string \<Rightarrow> nat \<Rightarrow> string \<Rightarrow> world \<Rightarrow> exn + document list" where
  "similarity_search E store k query w =
     (case search_error E (snd store) query of
        Some e \<Rightarrow> Inl e
      | None \<Rightarrow> Inr (take k (sort_key (\<lambda>d. distance E query (page_content d)) (collection w store))))"

text \<open>\<^verbatim>\<open>store.reset_collection()\<close>: the collection is deleted and created again, empty.\<close>

definition reset_collection :: "env \<Rightarrow> string \<times> string \<Rightarrow> world \<Rightarrow> (exn + unit) \<times> world" where
  "reset_collection E store w =
     (case reset_error E (snd store) of
        Some e \<Rightarrow> (Inl e, w)
      | None \<Rightarrow> (Inr (), w\<lparr>disk := (disk w)(store \<mapsto> [])\<rparr>))"

text \<open>
  LangChain's \<^verbatim>\<open>VectorStoreRetrieverMemory\<close>: \<^verbatim>\<open>save_context(inputs, outputs)\<close>
  stores one document whose text is the lines \<^verbatim>\<open>key: value\<close> of the inputs (but the
  memory key) and then of the outputs, with no metadata; \<^verbatim>\<open>load_memory_variables\<close>
  joins the retrieved texts with newlines under the key \<^verbatim>\<open>history\<close>.
\<close>

definition form_documents :: "(string \<times> string) list \<Rightarrow> (string \<times> string) list \<Rightarrow> document list" where
  "form_documents inputs outputs =
     [\<lparr>page_content =
         join ''\<newline>'' (map (\<lambda>(k, v). k @ '': '' @ v)
           (filter (\<lambda>(k, v). k \<noteq> ''history'') inputs @ outputs)),
       metadata = Map.empty\<rparr>]"

definition save_context ::
  "env \<Rightarrow> string \<times> string \<Rightarrow> (string \<times> string) list \<Rightarrow> (string \<times> string) list \<Rightarrow> world
     \<Rightarrow> (exn + unit) \<times> world" where
  "save_context E store inputs outputs w = add_documents E store (form_documents inputs outputs) w"

section \<open>VectorStoreManager (vector_store_manager.py)\<close>

record vector_store_manager =
  memory_vectorstore :: "string \<times> string"
  knowledge_vectorstore :: "string \<times> string"

text \<open>\<^verbatim>\<open>__init__\<close>: both collections are opened (created when absent), nothing is emptied.\<close>

definition VectorStoreManager_init :: "string \<Rightarrow> string \<Rightarrow> world \<Rightarrow> vector_store_manager \<times> world" where
  "VectorStoreManager_init memory_dir kb_dir w =
     (case Chroma ''long_term_memory'' memory_dir w of (m, w1) \<Rightarrow>
      case Chroma ''knowledge_base'' kb_dir w1 of (k, w2) \<Rightarrow>
        (\<lparr>memory_vectorstore = m, knowledge_vectorstore = k\<rparr>, w2))"

text \<open>\<^verbatim>\<open>load_memory_variables\<close>: the memory retriever has k = 5.\<close>

definition load_memory_variables :: "env \<Rightarrow> vector_store_manager \<Rightarrow> string \<Rightarrow> world \<Rightarrow> exn + string" where
  "load_memory_variables E vm input_text w =
     (case similarity_search E (memory_vectorstore vm) 5 input_text w of
        Inl e \<Rightarrow> Inl e
      | Inr docs \<Rightarrow> Inr (join ''\<newline>'' (map page_content docs)))"

text \<open>\<^verbatim>\<open>retrieve_knowledge\<close>: the knowledge retriever has k = 3.\<close>

definition retrieve_knowledge :: "env \<Rightarrow> vector_store_manager \<Rightarrow> string \<Rightarrow> world \<Rightarrow> exn + string" where
  "retrieve_knowledge E vm query w =
     (case similarity_search E (knowledge_vectorstore vm) 3 query w of
        Inl e \<Rightarrow> Inl e
      | Inr docs \<Rightarrow> Inr (join ''\<newline>'' (map page_content docs)))"

definition save_memory_context ::
  "env \<Rightarrow> vector_store_manager \<Rightarrow> string \<Rightarrow> string \<Rightarrow> world \<Rightarrow> (exn + unit) \<times> world" where
  "save_memory_context E vm input_text output_text w =
     save_context E (memory_vectorstore vm) [(''input'', input_text)] [(''output'', output_text)] w"

section \<open>The LangGraph nodes (graph_nodes.py)\<close>

text \<open>
  \<^verbatim>\<open>AgentState\<close> is a dictionary with the keys \<^verbatim>\<open>input\<close>, \<^verbatim>\<open>memory\<close>,
  \<^verbatim>\<open>knowledge\<close> and \<^verbatim>\<open>response\<close>. A node returns a dictionary; the graph merges
  it into the state it passed to the node.
\<close>

type_synonym agent_state = "string \<rightharpoonup> string"

definition state_get :: "agent_state \<Rightarrow> string \<Rightarrow> string \<Rightarrow> string" where
  "state_get state key dflt = (case state key of None \<Rightarrow> dflt | Some v \<Rightarrow> v)"

definition retrieve_memory_node ::
  "env \<Rightarrow> vector_store_manager \<Rightarrow> world \<Rightarrow> agent_state \<Rightarrow> (exn + agent_state) \<times> world" where
  "retrieve_memory_node E vm w state =
     (case state ''input'' of
        None \<Rightarrow> (Inl (KeyError ''input''), w)
      | Some query \<Rightarrow>
          (case load_memory_variables E vm query w of
             Inl e \<Rightarrow> (Inl e, w)
           | Inr memory \<Rightarrow> (Inr (state(''memory'' \<mapsto> memory)), w)))"

definition retrieve_knowledge_node ::
  "env \<Rightarrow> vector_store_manager \<Rightarrow> world \<Rightarrow> agent_state \<Rightarrow> (exn + agent_state) \<times> world" where
  "retrieve_knowledge_node E vm w state =
     (case state ''input'' of
        None \<Rightarrow> (Inl (KeyError ''input''), w)
      | Some query \<Rightarrow>
          (case retrieve_knowledge E vm query w of
             Inl e \<Rightarrow> (Inl e, w)
           | Inr knowledge \<Rightarrow> (Inr (state(''knowledge'' \<mapsto> knowledge)), w)))"

text \<open>
  The prompt of \<^verbatim>\<open>generate_response_node\<close>:
  \<^verbatim>\<open>"\n\n".join(filter(None, [f"Knowledge:\n{knowledge}" if knowledge else "",
  f"Conversation History:\n{memory}" if memory else "", f"User: {query}"]))\<close>.
\<close>

definition build_prompt :: "string \<Rightarrow> string \<Rightarrow> string \<Rightarrow> string" where
  "build_prompt knowledge memory query =
     join ''\<newline>\<newline>'' (filter (\<lambda>s. s \<noteq> [])
       [if knowledge \<noteq> [] then ''Knowledge:\<newline>'' @ knowledge else [],
        if memory \<noteq> [] then ''Conversation History:\<newline>'' @ memory else [],
        ''User: '' @ query])"

definition llm_invoke :: "env \<Rightarrow> string \<Rightarrow> world \<Rightarrow> (exn + string) \<times> world" where
  "llm_invoke E prompt w = (llm E prompt, w\<lparr>trace := trace w @ [LlmInvoke prompt]\<rparr>)"

definition generate_response_node ::
  "env \<Rightarrow> world \<Rightarrow> agent_state \<Rightarrow> (exn + agent_state) \<times> world" where
  "generate_response_node E w state =
     (let memory = state_get state ''memory'' [];
          knowledge = state_get state ''knowledge'' []
      in case state ''input'' of
           None \<Rightarrow> (Inl (KeyError ''input''), w)
         | Some query \<Rightarrow>
             (case llm_invoke E (build_prompt knowledge memory query) w of
                (Inl e, w') \<Rightarrow> (Inl e, w')
              | (Inr content, w') \<Rightarrow> (Inr (state(''response'' \<mapsto> content)), w')))"

definition update_memory_node ::
  "env \<Rightarrow> vector_store_manager \<Rightarrow> world \<Rightarrow> agent_state \<Rightarrow> (exn + agent_state) \<times> world" where
  "update_memory_node E vm w state =
     (case state ''input'' of
        None \<Rightarrow> (Inl (KeyError ''input''), w)
      | Some input_text \<Rightarrow>
          (case state ''response'' of
             None \<Rightarrow> (Inl (KeyError ''response''), w)
           | Some output_text \<Rightarrow>
               (case save_memory_context E vm input_text output_text w of
                  (Inl e, w') \<Rightarrow> (Inl e, w')
                | (Inr _, w') \<Rightarrow> (Inr Map.empty, w'))))"

section \<open>The compiled graph and RAGAssistant (main.py)\<close>

text \<open>
  The graph of \<^verbatim>\<open>_create_graph\<close> is a chain: entry point, one edge from each node to
  the next, END. Invoking it runs the nodes in order; each returned dictionary is merged
  into the state, and an exception of a node leaves the run at once.
\<close>

fun run_nodes ::
  "(world \<Rightarrow> agent_state \<Rightarrow> (exn + agent_state) \<times> world) list \<Rightarrow> world \<Rightarrow> agent_state
     \<Rightarrow> (exn + agent_state) \<times> world" where
  "run_nodes [] w state = (Inr state, w)"
| "run_nodes (node # rest) w state =
     (case node w state of
        (Inl e, w') \<Rightarrow> (Inl e, w')
      | (Inr update, w') \<Rightarrow> run_nodes rest w' (state ++ update))"

definition graph_nodes ::
  "env \<Rightarrow> vector_store_manager \<Rightarrow> (world \<Rightarrow> agent_state \<Rightarrow> (exn + agent_state) \<times> world) list" where
  "graph_nodes E vm =
     [retrieve_memory_node E vm, retrieve_knowledge_node E vm,
      generate_response_node E, update_memory_node E vm]"

definition memory_agent_invoke ::
  "env \<Rightarrow> vector_store_manager \<Rightarrow> world \<Rightarrow> agent_state \<Rightarrow> (exn + agent_state) \<times> world" where
  "memory_agent_invoke E vm w state = run_nodes (graph_nodes E vm) w state"

definition process_user_input ::
  "env \<Rightarrow> vector_store_manager \<Rightarrow> world \<Rightarrow> string \<Rightarrow> (exn + string) \<times> world" where
  "process_user_input E vm w user_input =
     (case memory_agent_invoke E vm w [''input'' \<mapsto> user_input] of
        (Inl e, w') \<Rightarrow> (Inl e, w')
      | (Inr result, w') \<Rightarrow>
          (Inr (state_get result ''response'' ''Sorry, I couldn't generate a response.''), w'))"

section \<open>Status, reset and batch insertion (vector_store_manager.py)\<close>

text \<open>The dictionary that \<^verbatim>\<open>get_knowledge_base_status\<close> returns.\<close>

record kb_status =
  total_chunks :: nat
  file_types :: "string \<rightharpoonup> nat"
  success :: bool
  error :: "string option"

text \<open>\<^verbatim>\<open>store.get()\<close>: the stored documents, or the store's exception.\<close>

definition store_get :: "env \<Rightarrow> string \<times> string \<Rightarrow> world \<Rightarrow> exn + document list" where
  "store_get E store w =
     (case get_error E (snd store) of Some e \<Rightarrow> Inl e | None \<Rightarrow> Inr (collection w store))"

text \<open>The loop over \<^verbatim>\<open>metadatas\<close> that counts the chunks of each file type.\<close>

fun count_file_types :: "(string \<rightharpoonup> string) list \<Rightarrow> (string \<rightharpoonup> nat) \<Rightarrow> (string \<rightharpoonup> nat)" where
  "count_file_types [] counts = counts"
| "count_file_types (md # rest) counts =
     (case md ''file_type'' of
        None \<Rightarrow> count_file_types rest counts
      | Some file_type \<Rightarrow>
          count_file_types rest
            (counts(file_type \<mapsto> (case counts file_type of None \<Rightarrow> 0 | Some n \<Rightarrow> n) + 1)))"

definition get_knowledge_base_status :: "env \<Rightarrow> vector_store_manager \<Rightarrow> world \<Rightarrow> kb_status" where
  "get_knowledge_base_status E vm w =
     (case store_get E (knowledge_vectorstore vm) w of
        Inl e \<Rightarrow> \<lparr>total_chunks = 0, file_types = Map.empty, success = False, error = Some (str_exn e)\<rparr>
      | Inr docs \<Rightarrow>
          (let doc_count = length docs in
           \<lparr>total_chunks = doc_count,
            file_types = (if doc_count > 0 then count_file_types (map metadata docs) Map.empty else Map.empty),
            success = True, error = None\<rparr>))"

text \<open>\<^verbatim>\<open>reset_collections\<close>: "Reset both memory and knowledge collections."\<close>

definition reset_collections :: "env \<Rightarrow> vector_store_manager \<Rightarrow> world \<Rightarrow> (exn + unit) \<times> world" where
  "reset_collections E vm w =
     (case reset_collection E (memory_vectorstore vm) w of
        (Inl e, w') \<Rightarrow> (Inl e, w')
      | (Inr _, w') \<Rightarrow> reset_collection E (knowledge_vectorstore vm) w')"

definition add_documents_to_knowledge_base ::
  "env \<Rightarrow> vector_store_manager \<Rightarrow> document list \<Rightarrow> world \<Rightarrow> bool \<times> world" where
  "add_documents_to_knowledge_base E vm documents w =
     (case add_documents E (knowledge_vectorstore vm) documents w of
        (Inl e, w') \<Rightarrow> (False, w')
      | (Inr _, w') \<Rightarrow> (True, w'))"

section \<open>Start-up (config.py and the two main.py)\<close>

definition chroma_memory_dir :: string where
  "chroma_memory_dir = ''./chroma_storage''"

definition chroma_kb_dir :: string where
  "chroma_kb_dir = ''./kb_storage''"

text \<open>
  \<^verbatim>\<open>RAGAssistant.__init__\<close> of docs+response-generation/main.py: the manager is
  built over the configured directories and then "Reset collections on startup".
  The assistant is represented by its vector manager; the chat model and the processor
  are the parameters above.
\<close>

definition RAGAssistant_init :: "env \<Rightarrow> world \<Rightarrow> (exn + vector_store_manager) \<times> world" where
  "RAGAssistant_init E w =
     (case VectorStoreManager_init chroma_memory_dir chroma_kb_dir w of (vm, w1) \<Rightarrow>
      case reset_collections E vm w1 of
        (Inl e, w2) \<Rightarrow> (Inl e, w2)
      | (Inr _, w2) \<Rightarrow> (Inr vm, w2))"

text \<open>\<^verbatim>\<open>RAGAssistant.__init__\<close> of aitutor/main.py: the reset is commented out.\<close>

definition aitutor_RAGAssistant_init :: "env \<Rightarrow> world \<Rightarrow> (exn + vector_store_manager) \<times> world" where
  "aitutor_RAGAssistant_init E w =
     (case VectorStoreManager_init chroma_memory_dir chroma_kb_dir w of (vm, w1) \<Rightarrow> (Inr vm, w1))"

section \<open>DocumentProcessor (document_processor.py)\<close>

text \<open>\<^verbatim>\<open>str.lower\<close> and \<^verbatim>\<open>str.strip\<close> on the ASCII range.\<close>

definition lower_char :: "char \<Rightarrow> char" where
  "lower_char c =
     (if (65::nat) \<le> of_char c \<and> of_char c \<le> (90::nat) then char_of (of_char c + (32::nat)) else c)"

definition lower :: "string \<Rightarrow> string" where
  "lower s = map lower_char s"

definition isspace :: "char \<Rightarrow> bool" where
  "isspace c = ((of_char c :: nat) \<in> {9, 10, 11, 12, 13, 28, 29, 30, 31, 32})"

definition strip :: "string \<Rightarrow> string" where
  "strip s = rev (dropWhile isspace (rev (dropWhile isspace s)))"

text \<open>Both extractors catch every exception and return the empty string then.\<close>

definition extract_text_from_pdf :: "env \<Rightarrow> string \<Rightarrow> string" where
  "extract_text_from_pdf E pdf_path = (case pdf_text E pdf_path of Inl e \<Rightarrow> [] | Inr text \<Rightarrow> strip text)"

definition extract_text_from_txt :: "env \<Rightarrow> string \<Rightarrow> string" where
  "extract_text_from_txt E txt_path = (case txt_text E txt_path of Inl e \<Rightarrow> [] | Inr content \<Rightarrow> strip content)"

text \<open>\<^verbatim>\<open>splitter.create_documents([content], metadatas=[md])\<close>: one document per chunk.\<close>

definition create_documents :: "env \<Rightarrow> string \<Rightarrow> (string \<rightharpoonup> string) \<Rightarrow> document list" where
  "create_documents E content md = map (\<lambda>chunk. \<lparr>page_content = chunk, metadata = md\<rparr>) (split_text E content)"

text \<open>The tail of \<^verbatim>\<open>process_file\<close>, shared by its two branches.\<close>

definition split_content :: "env \<Rightarrow> path \<Rightarrow> string \<Rightarrow> string \<Rightarrow> document list \<times> bool" where
  "split_content E file_path content file_type =
     (if content = [] then ([], False)
      else (create_documents E content
              [''source'' \<mapsto> path_str file_path, ''filename'' \<mapsto> name file_path,
               ''file_type'' \<mapsto> file_type], True))"

definition process_file :: "env \<Rightarrow> path \<Rightarrow> document list \<times> bool" where
  "process_file E file_path =
     (let file_extension = lower (suffix file_path) in
      if file_extension = ''.pdf'' then
        split_content E file_path (extract_text_from_pdf E (path_str file_path)) ''pdf''
      else if file_extension = ''.txt'' then
        split_content E file_path (extract_text_from_txt E (path_str file_path)) ''txt''
      else ([], False))"

definition get_files_by_type :: "env \<Rightarrow> string \<Rightarrow> string list option \<Rightarrow> path list" where
  "get_files_by_type E directory types =
     (let types = (case types of None \<Rightarrow> [''.pdf'', ''.txt''] | Some ts \<Rightarrow> ts) in
      if \<not> dir_exists E directory then [] else concat (map (glob E directory) types))"

section \<open>UploadService (upload_service.py)\<close>

text \<open>
  The dictionary that \<^verbatim>\<open>upload_documents\<close> returns. The message is kept as the
  data it is formatted from; \<^verbatim>\<open>file_type_counts\<close> is present in the success case only.
\<close>

datatype upload_message =
    NoFilesFound "string list" string
  | Added nat nat "string \<rightharpoonup> nat"
  | NoValidFiles

record upload_result =
  upload_success :: bool
  message :: upload_message
  processed_files :: nat
  upload_total_chunks :: nat
  file_type_counts :: "(string \<rightharpoonup> nat) option"

text \<open>
  The loop over the files: the documents accumulated, the number of processed files and
  the count per extension. The increment of an extension that is not a key raises
  \<^verbatim>\<open>KeyError\<close>.
\<close>

fun process_files ::
  "env \<Rightarrow> path list \<Rightarrow> document list \<times> nat \<times> (string \<rightharpoonup> nat)
     \<Rightarrow> exn + document list \<times> nat \<times> (string \<rightharpoonup> nat)" where
  "process_files E [] acc = Inr acc"
| "process_files E (file_path # rest) (all_documents, n, counts) =
     (let file_ext = lower (suffix file_path) in
      case process_file E file_path of
        (documents, True) \<Rightarrow>
          (case counts file_ext of
             None \<Rightarrow> Inl (KeyError file_ext)
           | Some c \<Rightarrow> process_files E rest (all_documents @ documents, n + 1, counts(file_ext \<mapsto> c + 1)))
      | (documents, False) \<Rightarrow> process_files E rest (all_documents, n, counts))"

definition upload_documents ::
  "env \<Rightarrow> vector_store_manager \<Rightarrow> string \<Rightarrow> string list option \<Rightarrow> world
     \<Rightarrow> (exn + upload_result) \<times> world" where
  "upload_documents E vm directory types w =
     (let types = (case types of None \<Rightarrow> [''.pdf'', ''.txt''] | Some ts \<Rightarrow> ts);
          files = get_files_by_type E directory (Some types);
          nothing = \<lparr>upload_success = False, message = NoValidFiles, processed_files = 0,
                     upload_total_chunks = 0, file_type_counts = None\<rparr>
      in if files = [] then
           (Inr \<lparr>upload_success = False, message = NoFilesFound types directory, processed_files = 0,
                 upload_total_chunks = 0, file_type_counts = None\<rparr>, w)
         else
           (case process_files E files ([], 0, [''.pdf'' \<mapsto> 0, ''.txt'' \<mapsto> 0]) of
              Inl e \<Rightarrow> (Inl e, w)
            | Inr (all_documents, n, counts) \<Rightarrow>
                if all_documents \<noteq> [] then
                  (case add_documents_to_knowledge_base E vm all_documents w of
                     (True, w') \<Rightarrow>
                       (Inr \<lparr>upload_success = True,
                             message = Added (length all_documents) n counts,
                             processed_files = n,
                             upload_total_chunks = length all_documents,
                             file_type_counts = Some counts\<rparr>, w')
                   | (False, w') \<Rightarrow> (Inr nothing, w'))
                else (Inr nothing, w)))"

section \<open>The two-stage pipeline (RAG_implementation/main.py)\<close>

definition doc_vectorstore :: "string \<times> string" where
  "doc_vectorstore = (''./chroma_store'', ''langchain'')"

definition rag_memory_vectorstore :: "string \<times> string" where
  "rag_memory_vectorstore = (''./memory_store'', ''memory'')"

text \<open>\<^verbatim>\<open>RAGState\<close>: what \<^verbatim>\<open>retrieve\<close> returns, and what \<^verbatim>\<open>generate\<close> adds.\<close>

record rag_state =
  rag_input :: string
  rag_docs :: "document list"
  rag_memory :: "document list"

record rag_result = rag_state +
  draft :: string
  answer :: string

text \<open>\<^verbatim>\<open>retrieve\<close>: the retriever's default is k = 4; memory is searched with k = 2.\<close>

definition retrieve :: "env \<Rightarrow> world \<Rightarrow> string \<Rightarrow> exn + rag_state" where
  "retrieve E w user_query =
     (case similarity_search E doc_vectorstore 4 user_query w of
        Inl e \<Rightarrow> Inl e
      | Inr found \<Rightarrow>
          (case similarity_search E rag_memory_vectorstore 2 user_query w of
             Inl e \<Rightarrow> Inl e
           | Inr mem_docs \<Rightarrow> Inr \<lparr>rag_input = user_query, rag_docs = found, rag_memory = mem_docs\<rparr>))"

definition combined_context :: "rag_state \<Rightarrow> string" where
  "combined_context state =
     ''[Retrieved Document Context]\<newline>'' @
     join ''\<newline>\<newline>'' (map (\<lambda>d. ''- '' @ page_content d) (rag_docs state)) @
     ''\<newline>\<newline>[Relevant Memory]\<newline>'' @
     join ''\<newline>\<newline>'' (map (\<lambda>d. ''- '' @ page_content d) (rag_memory state))"

definition draft_prompt :: "rag_state \<Rightarrow> string" where
  "draft_prompt state =
     ''The following context and memories have been retrieved:\<newline>\<newline>'' @
     combined_context state @
     ''\<newline>\<newline>Now, answer the following question clearly and completely:\<newline>\<newline>Question: '' @
     rag_input state @ ''\<newline>''"

definition refine_prompt :: "rag_state \<Rightarrow> string \<Rightarrow> string" where
  "refine_prompt state draft_response =
     ''Refine the following draft answer using only the given context and memory.\<newline>'' @
     ''Ensure it is well-written, clear, and grounded in source content.\<newline>\<newline>Context:\<newline>'' @
     combined_context state @
     ''\<newline>\<newline>Draft Answer:\<newline>'' @ draft_response @
     ''\<newline>\<newline>Refined Answer:''"

definition memory_doc :: "string \<Rightarrow> string \<Rightarrow> document" where
  "memory_doc user_query final_response =
     \<lparr>page_content = ''Q: '' @ user_query @ ''\<newline>A: '' @ final_response,
      metadata = [''source'' \<mapsto> ''memory'']\<rparr>"

definition generate :: "env \<Rightarrow> world \<Rightarrow> rag_state \<Rightarrow> (exn + rag_result) \<times> world" where
  "generate E w state =
     (case llm_invoke E (draft_prompt state) w of
        (Inl e, w1) \<Rightarrow> (Inl e, w1)
      | (Inr draft_response, w1) \<Rightarrow>
          (case llm_invoke E (refine_prompt state draft_response) w1 of
             (Inl e, w2) \<Rightarrow> (Inl e, w2)
           | (Inr final_response, w2) \<Rightarrow>
               (case add_documents E rag_memory_vectorstore
                       [memory_doc (rag_input state) final_response] w2 of
                  (Inl e, w3) \<Rightarrow> (Inl e, w3)
                | (Inr _, w3) \<Rightarrow>
                    (Inr \<lparr>rag_input = rag_input state, rag_docs = rag_docs state,
                          rag_memory = rag_memory state,
                          draft = draft_response, answer = final_response\<rparr>, w3))))"

text \<open>The graph of this variant: \<^verbatim>\<open>retriever\<close>, then \<^verbatim>\<open>generator\<close>, then END.\<close>

definition app_invoke :: "env \<Rightarrow> world \<Rightarrow> string \<Rightarrow> (exn + rag_result) \<times> world" where
  "app_invoke E w user_query =
     (case retrieve E w user_query of
        Inl e \<Rightarrow> (Inl e, w)
      | Inr state \<Rightarrow> generate E w state)"

section \<open>The Streamlit nodes (textdoc_retrieval_app.py)\<close>

text \<open>
  The same four nodes, each in a \<^verbatim>\<open>try\<close> whose handler catches every exception.
  The user's position and occupation come from the session.
\<close>

definition textdoc_retrieve_memory_node ::
  "env \<Rightarrow> vector_store_manager \<Rightarrow> world \<Rightarrow> agent_state \<Rightarrow> agent_state" where
  "textdoc_retrieve_memory_node E vm w state =
     (case state ''input'' of
        None \<Rightarrow> state(''memory'' \<mapsto> [])
      | Some query \<Rightarrow>
          (case load_memory_variables E vm query w of
             Inl e \<Rightarrow> state(''memory'' \<mapsto> [])
           | Inr history \<Rightarrow> state(''memory'' \<mapsto> history)))"

definition textdoc_retrieve_knowledge_node ::
  "env \<Rightarrow> vector_store_manager \<Rightarrow> world \<Rightarrow> agent_state \<Rightarrow> agent_state" where
  "textdoc_retrieve_knowledge_node E vm w state =
     (case state ''input'' of
        None \<Rightarrow> state(''knowledge'' \<mapsto> [])
      | Some query \<Rightarrow>
          (case retrieve_knowledge E vm query w of
             Inl e \<Rightarrow> state(''knowledge'' \<mapsto> [])
           | Inr knowledge \<Rightarrow> state(''knowledge'' \<mapsto> knowledge)))"

definition textdoc_prompt :: "string \<Rightarrow> string \<Rightarrow> string \<Rightarrow> string \<Rightarrow> string \<Rightarrow> string" where
  "textdoc_prompt user_position user_occupation knowledge history query =
     join ''\<newline>\<newline>''
       ([''User Profile: '' @ user_position @ '' working in '' @ user_occupation,
         ''Please tailor your response to be relevant for this user's professional background and experience level.''] @
        (if strip knowledge \<noteq> [] then [''Relevant Knowledge:\<newline>'' @ knowledge] else []) @
        (if strip history \<noteq> [] then [''Previous Conversation:\<newline>'' @ history] else []) @
        [''Current User Question: '' @ query,
         ''Provide a helpful, accurate, and professionally relevant response based on the user's background and available information.''])"

definition textdoc_generate_response_node ::
  "env \<Rightarrow> string \<Rightarrow> string \<Rightarrow> world \<Rightarrow> agent_state \<Rightarrow> agent_state \<times> world" where
  "textdoc_generate_response_node E user_position user_occupation w state =
     (case state ''input'' of
        None \<Rightarrow>
          (state(''response'' \<mapsto> ''I encountered an error while generating a response: '' @ str_exn (KeyError ''input'')), w)
      | Some query \<Rightarrow>
          (case llm_invoke E (textdoc_prompt user_position user_occupation
                                (state_get state ''knowledge'' []) (state_get state ''memory'' []) query) w of
             (Inl e, w') \<Rightarrow>
               (state(''response'' \<mapsto> ''I encountered an error while generating a response: '' @ str_exn e), w')
           | (Inr content, w') \<Rightarrow>
               (if content = [] then
                  (state(''response'' \<mapsto>
                     ''I apologize, but I couldn't generate a proper response. Please try rephrasing your question.''), w')
                else (state(''response'' \<mapsto> content), w'))))"

definition textdoc_update_memory_node ::
  "env \<Rightarrow> vector_store_manager \<Rightarrow> world \<Rightarrow> agent_state \<Rightarrow> agent_state \<times> world" where
  "textdoc_update_memory_node E vm w state =
     (if state_get state ''response'' [] \<noteq> [] then
        (case state ''input'' of
           None \<Rightarrow> (Map.empty, w)
         | Some input_text \<Rightarrow>
             (case save_context E (memory_vectorstore vm) [(''input'', input_text)]
                     [(''output'', state_get state ''response'' [])] w of
                (r, w') \<Rightarrow> (Map.empty, w')))
      else (Map.empty, w))"

definition textdoc_agent_invoke ::
  "env \<Rightarrow> vector_store_manager \<Rightarrow> string \<Rightarrow> string \<Rightarrow> world \<Rightarrow> agent_state \<Rightarrow> agent_state \<times> world" where
  "textdoc_agent_invoke E vm user_position user_occupation w state =
     (let s1 = state ++ textdoc_retrieve_memory_node E vm w state;
          s2 = s1 ++ textdoc_retrieve_knowledge_node E vm w s1
      in case textdoc_generate_response_node E user_position user_occupation w s2 of
           (update3, w3) \<Rightarrow>
             (case textdoc_update_memory_node E vm w3 (s2 ++ update3) of
                (update4, w4) \<Rightarrow> ((s2 ++ update3) ++ update4, w4)))"

text \<open>The two reset buttons of the sidebar: each resets one store, in its own \<^verbatim>\<open>try\<close>.\<close>

definition clear_memory :: "env \<Rightarrow> vector_store_manager \<Rightarrow> world \<Rightarrow> world" where
  "clear_memory E vm w = snd (reset_collection E (memory_vectorstore vm) w)"

definition clear_knowledge_base :: "env \<Rightarrow> vector_store_manager \<Rightarrow> world \<Rightarrow> world" where
  "clear_knowledge_base E vm w = snd (reset_collection E (knowledge_vectorstore vm) w)"

section \<open>Quiz generation (aitutor/main.py and aitutor/app1.py)\<close>

text \<open>\<^verbatim>\<open>str.upper\<close> on the ASCII range, and \<^verbatim>\<open>str.replace\<close>.\<close>

definition upper_char :: "char \<Rightarrow> char" where
  "upper_char c =
     (if (97::nat) \<le> of_char c \<and> of_char c \<le> (122::nat) then char_of (of_char c - (32::nat)) else c)"

definition upper :: "string \<Rightarrow> string" where
  "upper s = map upper_char s"

function replace :: "string \<Rightarrow> string \<Rightarrow> string \<Rightarrow> string" where
  "replace old new s =
     (if old = [] then new @ concat (map (\<lambda>c. c # new) s)
      else if s = [] then []
      else if take (length old) s = old then new @ replace old new (drop (length old) s)
      else hd s # replace old new (tl s))"
  by pat_completeness auto
termination
  by (relation "measure (\<lambda>(old, new, s). length s)") auto

declare replace.simps [simp del]

text \<open>Python's truth value of a parsed JSON value.\<close>

fun truthy :: "json \<Rightarrow> bool" where
  "truthy JNull = False"
| "truthy (JBool b) = b"
| "truthy (JInt i) = (i \<noteq> 0)"
| "truthy (JFloat x) = (x \<noteq> 0)"
| "truthy (JString s) = (s \<noteq> [])"
| "truthy (JArray xs) = (xs \<noteq> [])"
| "truthy (JObject kvs) = (kvs \<noteq> [])"

text \<open>
  \<^verbatim>\<open>value[key]\<close> with a string key, \<^verbatim>\<open>for item in value\<close> and
  \<^verbatim>\<open>value.upper()\<close>. An \<open>AttributeError\<close> holds the name of the object's type
  and the missing attribute.
\<close>

fun type_name :: "json \<Rightarrow> string" where
  "type_name JNull = ''NoneType''"
| "type_name (JBool b) = ''bool''"
| "type_name (JInt i) = ''int''"
| "type_name (JFloat x) = ''float''"
| "type_name (JString s) = ''str''"
| "type_name (JArray xs) = ''list''"
| "type_name (JObject kvs) = ''dict''"

fun json_subscript :: "json \<Rightarrow> string \<Rightarrow> exn + json" where
  "json_subscript (JObject kvs) key = (case map_of kvs key of None \<Rightarrow> Inl (KeyError key) | Some v \<Rightarrow> Inr v)"
| "json_subscript v key = Inl (TypeError ''indices must be integers'')"

fun json_iter :: "json \<Rightarrow> exn + json list" where
  "json_iter (JArray xs) = Inr xs"
| "json_iter (JString s) = Inr (map (\<lambda>c. JString [c]) s)"
| "json_iter (JObject kvs) = Inr (map (\<lambda>(k, v). JString k) kvs)"
| "json_iter v = Inl (TypeError ''object is not iterable'')"

fun json_upper :: "json \<Rightarrow> exn + string" where
  "json_upper (JString s) = Inr (upper s)"
| "json_upper v = Inl (AttributeError (type_name v) ''upper'')"

text \<open>The prompt of \<^verbatim>\<open>_generate_quiz_question\<close>, an f-string around the context.\<close>

definition quiz_prompt :: "string \<Rightarrow> string" where
  \<open>quiz_prompt context = concat
     [''\<newline>'',
      ''        Based on the following context, please generate a single multiple-choice question.\<newline>'',
      ''        The question should test understanding of the key information in the text.\<newline>'',
      ''\<newline>'',
      ''        Context:\<newline>'',
      ''        "'' @ context @ ''"\<newline>'',
      ''\<newline>'',
      ''        Provide your response in a valid JSON format with the following keys:\<newline>'',
      ''        - "question": A string containing the question.\<newline>'',
      ''        - "options": A list of 4 strings representing the choices (labeled A, B, C, D).\<newline>'',
      ''        - "correct_answer": A string containing the letter of the correct option (e.g., "A").\<newline>'',
      ''\<newline>'',
      ''        Example format:\<newline>'',
      ''        {\<newline>'',
      ''          "question": "What is the primary function of the mitochondria?",\<newline>'',
      ''          "options": ["A) Protein synthesis", "B) Energy production", "C) Waste disposal", "D) Cell division"],\<newline>'',
      ''          "correct_answer": "B"\<newline>'',
      ''        }\<newline>'',
      ''\<newline>'',
      ''        Do not include any other text or explanations outside of the JSON object.\<newline>'',
      ''        '']\<close>

text \<open>\<^verbatim>\<open>response.content.strip().replace("```json", "").replace("```", "")\<close>.\<close>

definition clean_json_string :: "string \<Rightarrow> string" where
  "clean_json_string content = replace ''```'' [] (replace ''```json'' [] (strip content))"

text \<open>\<^verbatim>\<open>except (json.JSONDecodeError, AttributeError)\<close>.\<close>

fun quiz_handler_catches :: "exn \<Rightarrow> bool" where
  "quiz_handler_catches (JSONDecodeError m) = True"
| "quiz_handler_catches (AttributeError t a) = True"
| "quiz_handler_catches e = False"

text \<open>
  \<^verbatim>\<open>_generate_quiz_question\<close>: the parsed value is returned as it is; \<^verbatim>\<open>None\<close>
  (here \<open>JNull\<close>) is returned when the handler catches.
\<close>

definition RAGAssistant_generate_quiz_question :: "env \<Rightarrow> string \<Rightarrow> world \<Rightarrow> (exn + json) \<times> world" where
  "RAGAssistant_generate_quiz_question E context w =
     (case llm_invoke E (quiz_prompt context) w of
        (Inl e, w') \<Rightarrow> (if quiz_handler_catches e then (Inr JNull, w') else (Inl e, w'))
      | (Inr content, w') \<Rightarrow>
          (case json_loads E (clean_json_string content) of
             Inl e \<Rightarrow> (if quiz_handler_catches e then (Inr JNull, w') else (Inl e, w'))
           | Inr v \<Rightarrow> (Inr v, w')))"

text \<open>
  Attribute lookup on a \<^verbatim>\<open>VectorStoreManager\<close>: the attributes that
  \<^verbatim>\<open>__init__\<close> sets and the methods the class defines. The quiz code calls
  \<^verbatim>\<open>get_random_knowledge_chunks(num_chunks=1)\<close> on it.
\<close>

definition VectorStoreManager_attributes :: "string list" where
  "VectorStoreManager_attributes =
     [''embedding'', ''memory_vectorstore'', ''knowledge_vectorstore'', ''memory'',
      ''knowledge_retriever'', ''reset_collections'', ''add_documents_to_knowledge_base'',
      ''get_knowledge_base_status'', ''save_memory_context'', ''load_memory_variables'',
      ''retrieve_knowledge'']"

definition get_random_knowledge_chunks ::
  "env \<Rightarrow> vector_store_manager \<Rightarrow> nat \<Rightarrow> world \<Rightarrow> exn + string list" where
  "get_random_knowledge_chunks E vm num_chunks w =
     (if List.member VectorStoreManager_attributes ''get_random_knowledge_chunks''
      then Inr (sample_chunks E num_chunks (collection w (knowledge_vectorstore vm)))
      else Inl (AttributeError ''VectorStoreManager'' ''get_random_knowledge_chunks''))"

text \<open>What the command-line quiz prints, in order.\<close>

datatype quiz_output =
    KnowledgeBaseEmpty
  | NoContext
  | TryingAgain
  | Asked json "json list"
  | Correct
  | Incorrect string
  | QuizFinished

text \<open>Printing the question and its options.\<close>

definition show_question :: "json \<Rightarrow> exn + quiz_output" where
  "show_question quiz_data =
     (case json_subscript quiz_data ''question'' of
        Inl e \<Rightarrow> Inl e
      | Inr q \<Rightarrow>
          (case json_subscript quiz_data ''options'' of
             Inl e \<Rightarrow> Inl e
           | Inr opts \<Rightarrow>
               (case json_iter opts of Inl e \<Rightarrow> Inl e | Inr items \<Rightarrow> Inr (Asked q items))))"

text \<open>
  One question answered: the line read is compared with the correct answer, and a second
  line decides whether the loop goes on. The result is the exception raised (if any),
  what was printed, the lines left, and whether another question is wanted.
\<close>

definition answer_question ::
  "json \<Rightarrow> quiz_output \<Rightarrow> string list \<Rightarrow> exn option \<times> quiz_output list \<times> string list \<times> bool" where
  "answer_question quiz_data asked stdin =
     (case stdin of
        [] \<Rightarrow> (Some EOFError, [asked], [], False)
      | line1 # stdin1 \<Rightarrow>
          (let user_answer = upper (strip line1) in
           if user_answer \<in> {''STOP'', ''EXIT'', ''QUIT''} then (None, [asked], stdin1, False)
           else
             (case json_subscript quiz_data ''correct_answer'' of
                Inl e \<Rightarrow> (Some e, [asked], stdin1, False)
              | Inr ca \<Rightarrow>
                  (case json_upper ca of
                     Inl e \<Rightarrow> (Some e, [asked], stdin1, False)
                   | Inr correct_answer \<Rightarrow>
                       (let verdict = (if user_answer = correct_answer then Correct
                                       else Incorrect correct_answer)
                        in case stdin1 of
                             [] \<Rightarrow> (Some EOFError, [asked, verdict], [], False)
                           | line2 # stdin2 \<Rightarrow>
                               (None, [asked, verdict], stdin2, lower (strip line2) = ''y''))))))"

text \<open>
  The \<^verbatim>\<open>while True\<close> loop of \<^verbatim>\<open>_start_quiz\<close>, with the lines still to be read from
  standard input. The loop need not end (a question that cannot be generated is tried
  again), so the model has fuel: \<open>None\<close> is a run that has not returned yet. The result is
  the exception that left the loop, if any, and what was printed.
\<close>

fun quiz_loop ::
  "nat \<Rightarrow> env \<Rightarrow> vector_store_manager \<Rightarrow> string list \<Rightarrow> world \<Rightarrow> quiz_output list
     \<Rightarrow> ((exn option \<times> quiz_output list) \<times> world) option" where
  "quiz_loop 0 E vm stdin w out = None"
| "quiz_loop (Suc fuel) E vm stdin w out =
     (case get_random_knowledge_chunks E vm 1 w of
        Inl e \<Rightarrow> Some ((Some e, out), w)
      | Inr [] \<Rightarrow> Some ((None, out @ [NoContext, QuizFinished]), w)
      | Inr (context # _) \<Rightarrow>
          (case RAGAssistant_generate_quiz_question E context w of
             (Inl e, w1) \<Rightarrow> Some ((Some e, out), w1)
           | (Inr quiz_data, w1) \<Rightarrow>
               if \<not> truthy quiz_data then quiz_loop fuel E vm stdin w1 (out @ [TryingAgain])
               else
                 (case show_question quiz_data of
                    Inl e \<Rightarrow> Some ((Some e, out), w1)
                  | Inr asked \<Rightarrow>
                      (case answer_question quiz_data asked stdin of
                         (Some e, printed, stdin', again) \<Rightarrow> Some ((Some e, out @ printed), w1)
                       | (None, printed, stdin', again) \<Rightarrow>
                           if again then quiz_loop fuel E vm stdin' w1 (out @ printed)
                           else Some ((None, out @ printed @ [QuizFinished]), w1)))))"

definition RAGAssistant_start_quiz ::
  "nat \<Rightarrow> env \<Rightarrow> vector_store_manager \<Rightarrow> string list \<Rightarrow> world
     \<Rightarrow> ((exn option \<times> quiz_output list) \<times> world) option" where
  "RAGAssistant_start_quiz fuel E vm stdin w =
     (let status = get_knowledge_base_status E vm w in
      if \<not> total_chunks status > 0 then Some ((None, [KnowledgeBaseEmpty]), w)
      else quiz_loop fuel E vm stdin w [])"

text \<open>The Streamlit session and \<^verbatim>\<open>generate_quiz_question(assistant)\<close> of app1.py.\<close>

datatype ui_error =
    CouldNotGenerate
  | CouldNotRetrieve
  | ErrorGenerating string

record session_state =
  student_class :: "string option"
  current_question :: json
  shown_errors :: "ui_error list"

definition generate_quiz_question ::
  "env \<Rightarrow> vector_store_manager \<Rightarrow> session_state \<Rightarrow> world \<Rightarrow> session_state \<times> world" where
  "generate_quiz_question E vm session w =
     (case get_random_knowledge_chunks E vm 1 w of
        Inl e \<Rightarrow> (session\<lparr>shown_errors := shown_errors session @ [ErrorGenerating (str_exn e)]\<rparr>, w)
      | Inr [] \<Rightarrow> (session\<lparr>shown_errors := shown_errors session @ [CouldNotRetrieve]\<rparr>, w)
      | Inr (context # _) \<Rightarrow>
          (let student = (case student_class session of None \<Rightarrow> ''Not specified'' | Some c \<Rightarrow> c);
               leveled = (if student \<noteq> ''Not a student / Not applicable'' \<and> student \<noteq> ''Not specified''
                          then ''[Generate question appropriate for '' @ student @ '' level] '' @ context
                          else context)
           in case RAGAssistant_generate_quiz_question E leveled w of
                (Inl e, w') \<Rightarrow>
                  (session\<lparr>shown_errors := shown_errors session @ [ErrorGenerating (str_exn e)]\<rparr>, w')
              | (Inr question_data, w') \<Rightarrow>
                  if truthy question_data then (session\<lparr>current_question := question_data\<rparr>, w')
                  else (session\<lparr>shown_errors := shown_errors session @ [CouldNotGenerate]\<rparr>, w')))"

section \<open>Notions of the specification, and a sample environment\<close>

text \<open>
  The specification's prompt: the knowledge context, the memory context and the user's
  question, in this order, each section omitted entirely when its content is empty, so
  that no label is emitted with empty content.
\<close>

definition section_of :: "string \<Rightarrow> string \<Rightarrow> string list" where
  "section_of label content = (if content = [] then [] else [label @ content])"

definition prompt_sections :: "string \<Rightarrow> string \<Rightarrow> string \<Rightarrow> string list" where
  "prompt_sections knowledge history query =
     section_of ''Knowledge:\<newline>'' knowledge @
     section_of ''Conversation History:\<newline>'' history @
     section_of ''User: '' query"

text \<open>The prompts of the completion calls, and the batches of the add calls, of a trace.\<close>

fun llm_calls :: "event list \<Rightarrow> string list" where
  "llm_calls [] = []"
| "llm_calls (LlmInvoke p # es) = p # llm_calls es"
| "llm_calls (AddDocuments c ds # es) = llm_calls es"

fun add_calls :: "string \<Rightarrow> event list \<Rightarrow> document list list" where
  "add_calls c [] = []"
| "add_calls c (LlmInvoke p # es) = add_calls c es"
| "add_calls c (AddDocuments c' ds # es) = (if c' = c then ds # add_calls c es else add_calls c es)"

text \<open>
  A sample environment in which nothing fails: the chat model answers \<open>Paris\<close>, the
  splitter returns the text as one chunk, the uploads directory holds one text file and
  one unreadable PDF.
\<close>

definition sample_env :: env where
  "sample_env =
     \<lparr>search_error = (\<lambda>c q. None),
      distance = (\<lambda>q t. length t),
      add_error = (\<lambda>c ds. None),
      get_error = (\<lambda>c. None),
      reset_error = (\<lambda>c. None),
      llm = (\<lambda>p. Inr ''Paris''),
      split_text = (\<lambda>t. [t]),
      pdf_text = (\<lambda>p. Inl (ProviderError ''unreadable'')),
      txt_text = (\<lambda>p. Inr ''The mitochondria is the powerhouse of the cell.''),
      dir_exists = (\<lambda>d. True),
      glob = (\<lambda>d ext.
        if ext = ''.txt'' then [\<lparr>path_str = ''uploads/cell.txt'', name = ''cell.txt'', suffix = ''.txt''\<rparr>]
        else if ext = ''.pdf'' then [\<lparr>path_str = ''uploads/scan.pdf'', name = ''scan.pdf'', suffix = ''.pdf''\<rparr>]
        else []),
      json_loads = (\<lambda>s. Inl (JSONDecodeError ''Expecting value'')),
      sample_chunks = (\<lambda>n ds. map page_content (take n ds))\<rparr>"

definition sample_vm :: vector_store_manager where
  "sample_vm =
     \<lparr>memory_vectorstore = (chroma_memory_dir, ''long_term_memory''),
      knowledge_vectorstore = (chroma_kb_dir, ''knowledge_base'')\<rparr>"

definition empty_world :: world where
  "empty_world = \<lparr>disk = Map.empty, trace = []\<rparr>"

text \<open>
  A world in which both collections of \<open>sample_vm\<close> hold one document: an earlier
  exchange in memory, one chunk in the knowledge base.
\<close>

definition sample_world :: world where
  "sample_world =
     \<lparr>disk =
        [(chroma_memory_dir, ''long_term_memory'') \<mapsto>
           [\<lparr>page_content = ''input: Hi\<newline>output: Hello'', metadata = Map.empty\<rparr>],
         (chroma_kb_dir, ''knowledge_base'') \<mapsto>
           [\<lparr>page_content = ''France: Paris'',
             metadata = [''source'' \<mapsto> ''uploads/geo.txt'', ''filename'' \<mapsto> ''geo.txt'',
                         ''file_type'' \<mapsto> ''txt'']\<rparr>]],
      trace = []\<rparr>"

text \<open>
  The field that each stage of the graph adds to the state (the stages counted from 0;
  the last stage adds none), and the fields set after the first n stages of a query.
\<close>

fun stage_fields :: "nat \<Rightarrow> string set" where
  "stage_fields 0 = {''memory''}"
| "stage_fields (Suc 0) = {''knowledge''}"
| "stage_fields (Suc (Suc 0)) = {''response''}"
| "stage_fields n = {}"

fun fields_after :: "nat \<Rightarrow> string set" where
  "fields_after 0 = {''input''}"
| "fields_after (Suc n) = fields_after n \<union> stage_fields n"


text \<open>
  Three environments with one collaborator down: the search of the memory collection, the
  search of the knowledge collection, the chat model.
\<close>

definition memory_outage_env :: env where
  "memory_outage_env =
     sample_env\<lparr>search_error :=
       (\<lambda>c q. if c = ''long_term_memory'' then Some (ProviderError ''embedding service unavailable'') else None)\<rparr>"

definition knowledge_outage_env :: env where
  "knowledge_outage_env =
     sample_env\<lparr>search_error :=
       (\<lambda>c q. if c = ''knowledge_base'' then Some (ProviderError ''embedding service unavailable'') else None)\<rparr>"

definition llm_outage_env :: env where
  "llm_outage_env = sample_env\<lparr>llm := (\<lambda>p. Inl (ProviderError ''completion service unavailable''))\<rparr>"


text \<open>
  The document that \<^verbatim>\<open>save_memory_context(q, a)\<close> stores, and two worlds: the one
  left by the first construction of the store manager over the configured directories,
  and the one left by saving an exchange then.
\<close>

definition memory_record :: "string \<Rightarrow> string \<Rightarrow> document" where
  "memory_record q a = \<lparr>page_content = ''input: '' @ q @ ''\<newline>output: '' @ a, metadata = Map.empty\<rparr>"

definition started_world :: world where
  "started_world = snd (VectorStoreManager_init chroma_memory_dir chroma_kb_dir empty_world)"

definition saved_world :: world where
  "saved_world = snd (save_memory_context sample_env sample_vm ''Capital?'' ''Paris'' started_world)"

section \<open>The prompt of the Generate stage\<close>

lemma llm_calls_append: "llm_calls (xs @ ys) = llm_calls xs @ llm_calls ys"
  by (induction xs rule: llm_calls.induct) auto

lemma build_prompt_sections:
  "build_prompt knowledge history query =
     join ''\<newline>\<newline>''
       (section_of ''Knowledge:\<newline>'' knowledge @
        section_of ''Conversation History:\<newline>'' history @ [''User: '' @ query])"
  by (simp add: build_prompt_def section_of_def)

lemma build_prompt_prompt_sections:
  "query \<noteq> [] \<Longrightarrow>
   build_prompt knowledge history query = join ''\<newline>\<newline>'' (prompt_sections knowledge history query)"
  by (simp add: build_prompt_def prompt_sections_def section_of_def)

lemma generate_response_node_world:
  "state ''input'' = Some query \<Longrightarrow>
   snd (generate_response_node E w state) =
     w\<lparr>trace := trace w @
        [LlmInvoke (build_prompt (state_get state ''knowledge'' []) (state_get state ''memory'' []) query)]\<rparr>"
  by (simp add: generate_response_node_def llm_invoke_def Let_def split: sum.splits prod.splits)

lemma process_user_input_llm_calls:
  assumes "load_memory_variables E vm q w = Inr history"
    and "retrieve_knowledge E vm q w = Inr knowledge"
  shows "llm_calls (trace (snd (process_user_input E vm w q))) =
           llm_calls (trace w) @ [build_prompt knowledge history q]"
  using assms
  by (simp add: process_user_input_def memory_agent_invoke_def graph_nodes_def
      retrieve_memory_node_def retrieve_knowledge_node_def generate_response_node_def
      update_memory_node_def save_memory_context_def save_context_def add_documents_def
      llm_invoke_def state_get_def Let_def llm_calls_append
      split: sum.splits prod.splits option.splits)

lemma sample_world_memory:
  "load_memory_variables sample_env sample_vm q sample_world = Inr ''input: Hi\<newline>output: Hello''"
  by (simp add: load_memory_variables_def similarity_search_def sample_env_def sample_vm_def
      sample_world_def collection_def chroma_memory_dir_def chroma_kb_dir_def)

lemma sample_world_knowledge:
  "retrieve_knowledge sample_env sample_vm q sample_world = Inr ''France: Paris''"
  by (simp add: retrieve_knowledge_def similarity_search_def sample_env_def sample_vm_def
      sample_world_def collection_def chroma_memory_dir_def chroma_kb_dir_def)

text \<open>
  Claim C3, as the specification words it, fails for the empty question: the question
  section is not omitted. With a knowledge context and the empty question (an empty line
  typed at the prompt of the command line), \<open>generate_response_node\<close> sends a prompt
  that ends with the bare label \<^verbatim>\<open>User: \<close>, where the specification's prompt is the
  knowledge section alone; and the pipeline run on the empty question over empty stores
  sends the prompt \<^verbatim>\<open>User: \<close>, where the specification's prompt is empty.
\<close>

theorem generate_prompt_empty_question_label:
  "snd (generate_response_node sample_env empty_world [''input'' \<mapsto> [], ''knowledge'' \<mapsto> ''France: Paris''])
     = \<lparr>disk = Map.empty, trace = [LlmInvoke ''Knowledge:\<newline>France: Paris\<newline>\<newline>User: '']\<rparr> \<and>
   join ''\<newline>\<newline>'' (prompt_sections ''France: Paris'' [] []) = ''Knowledge:\<newline>France: Paris'' \<and>
   llm_calls (trace (snd (process_user_input sample_env sample_vm empty_world []))) = [''User: ''] \<and>
   join ''\<newline>\<newline>'' (prompt_sections [] [] []) = []"
proof -
  have m: "load_memory_variables sample_env sample_vm [] empty_world = Inr []"
    by (simp add: load_memory_variables_def similarity_search_def sample_env_def sample_vm_def
        empty_world_def collection_def)
  have k: "retrieve_knowledge sample_env sample_vm [] empty_world = Inr []"
    by (simp add: retrieve_knowledge_def similarity_search_def sample_env_def sample_vm_def
        empty_world_def collection_def)
  have n: "snd (generate_response_node sample_env empty_world [''input'' \<mapsto> [], ''knowledge'' \<mapsto> ''France: Paris''])
     = \<lparr>disk = Map.empty, trace = [LlmInvoke ''Knowledge:\<newline>France: Paris\<newline>\<newline>User: '']\<rparr>"
    by (simp add: generate_response_node_world build_prompt_def state_get_def empty_world_def)
  have p: "llm_calls (trace (snd (process_user_input sample_env sample_vm empty_world []))) = [''User: '']"
    using process_user_input_llm_calls [OF m k]
    by (simp add: build_prompt_def empty_world_def)
  show ?thesis
    using n p by (simp add: prompt_sections_def section_of_def)
qed

text \<open>
  Claim C3, amended. In every state that reaches \<open>generate_response_node\<close>, the node
  issues exactly one completion call and changes nothing else; its prompt is the
  knowledge section, the memory section and the line \<^verbatim>\<open>User: <question>\<close> in this
  order, joined by blank lines; the knowledge section and the memory section are left
  out, with their labels, when their content is empty, and the question line is always
  there. For a non-empty question this is the specification's prompt. A query whose two
  retrievals return issues exactly this one completion call in the whole pipeline.
\<close>

theorem generate_prompt_order_single_call:
  "(state ''input'' = Some query \<longrightarrow>
      snd (generate_response_node E w state) =
        w\<lparr>trace := trace w @
           [LlmInvoke (join ''\<newline>\<newline>''
              (section_of ''Knowledge:\<newline>'' (state_get state ''knowledge'' []) @
               section_of ''Conversation History:\<newline>'' (state_get state ''memory'' []) @
               [''User: '' @ query]))]\<rparr>) \<and>
   (state ''input'' = Some query \<and> query \<noteq> [] \<longrightarrow>
      snd (generate_response_node E w state) =
        w\<lparr>trace := trace w @
           [LlmInvoke (join ''\<newline>\<newline>''
              (prompt_sections (state_get state ''knowledge'' []) (state_get state ''memory'' []) query))]\<rparr>) \<and>
   (load_memory_variables E vm user_input w = Inr history \<and>
    retrieve_knowledge E vm user_input w = Inr knowledge \<longrightarrow>
      llm_calls (trace (snd (process_user_input E vm w user_input))) =
        llm_calls (trace w) @
          [join ''\<newline>\<newline>''
             (section_of ''Knowledge:\<newline>'' knowledge @
              section_of ''Conversation History:\<newline>'' history @ [''User: '' @ user_input])])"
proof -
  have a: "state ''input'' = Some query \<longrightarrow>
      snd (generate_response_node E w state) =
        w\<lparr>trace := trace w @
           [LlmInvoke (join ''\<newline>\<newline>''
              (section_of ''Knowledge:\<newline>'' (state_get state ''knowledge'' []) @
               section_of ''Conversation History:\<newline>'' (state_get state ''memory'' []) @
               [''User: '' @ query]))]\<rparr>"
    by (simp add: generate_response_node_world build_prompt_sections)
  have b: "state ''input'' = Some query \<and> query \<noteq> [] \<longrightarrow>
      snd (generate_response_node E w state) =
        w\<lparr>trace := trace w @
           [LlmInvoke (join ''\<newline>\<newline>''
              (prompt_sections (state_get state ''knowledge'' []) (state_get state ''memory'' []) query))]\<rparr>"
    by (simp add: generate_response_node_world build_prompt_prompt_sections)
  have c: "load_memory_variables E vm user_input w = Inr history \<and>
    retrieve_knowledge E vm user_input w = Inr knowledge \<longrightarrow>
      llm_calls (trace (snd (process_user_input E vm w user_input))) =
        llm_calls (trace w) @
          [join ''\<newline>\<newline>''
             (section_of ''Knowledge:\<newline>'' knowledge @
              section_of ''Conversation History:\<newline>'' history @ [''User: '' @ user_input])]"
    by (simp add: process_user_input_llm_calls build_prompt_sections)
  from a b c show ?thesis by blast
qed

theorem generate_prompt_order_single_call_witness:
  "snd (generate_response_node sample_env sample_world
          [''input'' \<mapsto> ''Capital?'', ''memory'' \<mapsto> ''input: Hi\<newline>output: Hello'',
           ''knowledge'' \<mapsto> ''France: Paris''])
     = sample_world\<lparr>trace :=
         [LlmInvoke ''Knowledge:\<newline>France: Paris\<newline>\<newline>Conversation History:\<newline>input: Hi\<newline>output: Hello\<newline>\<newline>User: Capital?'']\<rparr> \<and>
   join ''\<newline>\<newline>'' (prompt_sections ''France: Paris'' ''input: Hi\<newline>output: Hello'' ''Capital?'')
     = ''Knowledge:\<newline>France: Paris\<newline>\<newline>Conversation History:\<newline>input: Hi\<newline>output: Hello\<newline>\<newline>User: Capital?'' \<and>
   load_memory_variables sample_env sample_vm ''Capital?'' sample_world = Inr ''input: Hi\<newline>output: Hello'' \<and>
   retrieve_knowledge sample_env sample_vm ''Capital?'' sample_world = Inr ''France: Paris'' \<and>
   llm_calls (trace (snd (process_user_input sample_env sample_vm sample_world ''Capital?'')))
     = [''Knowledge:\<newline>France: Paris\<newline>\<newline>Conversation History:\<newline>input: Hi\<newline>output: Hello\<newline>\<newline>User: Capital?'']"
  using generate_prompt_order_single_call
      [of "[''input'' \<mapsto> ''Capital?'', ''memory'' \<mapsto> ''input: Hi\<newline>output: Hello'',
            ''knowledge'' \<mapsto> ''France: Paris'']" "''Capital?''"
          sample_env sample_world sample_vm "''Capital?''" "''input: Hi\<newline>output: Hello''" "''France: Paris''"]
    sample_world_memory [of "''Capital?''"] sample_world_knowledge [of "''Capital?''"]
  by (simp add: prompt_sections_def section_of_def state_get_def sample_world_def)

section \<open>The state across the stages\<close>

lemma run_nodes_snoc:
  "run_nodes (nodes @ [node]) w s0 =
     (case run_nodes nodes w s0 of
        (Inl e, w') \<Rightarrow> (Inl e, w')
      | (Inr s, w') \<Rightarrow>
          (case node w' s of (Inl e, w'') \<Rightarrow> (Inl e, w'') | (Inr u, w'') \<Rightarrow> (Inr (s ++ u), w'')))"
  by (induction nodes arbitrary: w s0) (auto split: prod.splits sum.splits)

lemma run_nodes_take_Suc:
  assumes "n < length nodes"
    and "run_nodes (take (Suc n) nodes) w s0 = (Inr s', w2)"
  shows "\<exists>s w1 u. run_nodes (take n nodes) w s0 = (Inr s, w1) \<and>
           (nodes ! n) w1 s = (Inr u, w2) \<and> s' = s ++ u"
  using assms
  by (auto simp add: take_Suc_conv_app_nth run_nodes_snoc split: prod.splits sum.splits)

lemma map_add_upd_self: "s ++ s(k \<mapsto> v) = s(k \<mapsto> v)"
  by (rule ext) (simp add: map_add_def split: option.splits)

lemma retrieve_memory_node_update:
  "retrieve_memory_node E vm w s = (Inr u, w') \<Longrightarrow> \<exists>m. s ++ u = s(''memory'' \<mapsto> m)"
  by (auto simp add: retrieve_memory_node_def map_add_upd_self simp del: map_add_upd split: option.splits sum.splits)

lemma retrieve_knowledge_node_update:
  "retrieve_knowledge_node E vm w s = (Inr u, w') \<Longrightarrow> \<exists>k. s ++ u = s(''knowledge'' \<mapsto> k)"
  by (auto simp add: retrieve_knowledge_node_def map_add_upd_self simp del: map_add_upd split: option.splits sum.splits)

lemma generate_response_node_update:
  "generate_response_node E w s = (Inr u, w') \<Longrightarrow> \<exists>r. s ++ u = s(''response'' \<mapsto> r)"
  by (auto simp add: generate_response_node_def Let_def map_add_upd_self simp del: map_add_upd split: option.splits sum.splits prod.splits)

lemma update_memory_node_update:
  "update_memory_node E vm w s = (Inr u, w') \<Longrightarrow> s ++ u = s"
  by (auto simp add: update_memory_node_def split: option.splits sum.splits prod.splits)

lemma stage_update:
  assumes "n < 4" and "(graph_nodes E vm ! n) w s = (Inr u, w')"
  shows "(\<exists>f v. stage_fields n = {f} \<and> s ++ u = s(f \<mapsto> v)) \<or> (stage_fields n = {} \<and> s ++ u = s)"
proof -
  consider "n = 0" | "n = Suc 0" | "n = Suc (Suc 0)" | "n = Suc (Suc (Suc 0))"
    using assms(1) by arith
  then show ?thesis
  proof cases
    case 1
    with assms(2) show ?thesis using retrieve_memory_node_update[of E vm w s u w']
      by (auto simp add: graph_nodes_def)
  next
    case 2
    with assms(2) show ?thesis using retrieve_knowledge_node_update[of E vm w s u w']
      by (auto simp add: graph_nodes_def)
  next
    case 3
    with assms(2) show ?thesis using generate_response_node_update[of E w s u w']
      by (auto simp add: graph_nodes_def)
  next
    case 4
    with assms(2) show ?thesis using update_memory_node_update[of E vm w s u w']
      by (auto simp add: graph_nodes_def)
  qed
qed



lemma prefix_state:
  "n \<le> 4 \<Longrightarrow> run_nodes (take n (graph_nodes E vm)) w [''input'' \<mapsto> q] = (Inr s, w1) \<Longrightarrow>
   s ''input'' = Some q \<and> dom s = fields_after n"
proof (induction n arbitrary: s w1)
  case 0
  then show ?case by (auto split: if_splits)
next
  case (Suc n)
  have len: "n < length (graph_nodes E vm)" using Suc.prems(1) by (simp add: graph_nodes_def)
  from run_nodes_take_Suc[OF len Suc.prems(2)] obtain s0 w0 u where
    r: "run_nodes (take n (graph_nodes E vm)) w [''input'' \<mapsto> q] = (Inr s0, w0)"
    and st: "(graph_nodes E vm ! n) w0 s0 = (Inr u, w1)" and s: "s = s0 ++ u"
    by blast
  have le: "n \<le> 4" using Suc.prems(1) by simp
  from Suc.IH[OF le r] have ih1: "s0 ''input'' = Some q" and ih2: "dom s0 = fields_after n"
    by simp_all
  have n4: "n < 4" using Suc.prems(1) by simp
  from stage_update[OF n4 st] show ?case
  proof
    assume "\<exists>f v. stage_fields n = {f} \<and> s0 ++ u = s0(f \<mapsto> v)"
    then obtain f v where f: "stage_fields n = {f}" and e: "s0 ++ u = s0(f \<mapsto> v)" by blast
    have "f \<noteq> ''input''" using f n4 by (cases n rule: stage_fields.cases) auto
    then have i: "s ''input'' = Some q" using s e ih1 by simp
    have "s = s0(f \<mapsto> v)" using s e by simp
    then have "dom s = insert f (dom s0)" by (simp only: dom_fun_upd) simp
    then have "dom s = fields_after (Suc n)" using f ih2 by auto
    with i show ?thesis by blast
  next
    assume "stage_fields n = {} \<and> s0 ++ u = s0"
    then show ?thesis using s ih1 ih2 by simp
  qed
qed


lemma stage_returns:
  assumes "n < 4" and "(graph_nodes E vm ! n) w s = (Inr u, w')"
  shows "(n < 3 \<longrightarrow> s ++ u = u) \<and> (n = 3 \<longrightarrow> u = Map.empty)"
proof -
  consider "n = 0" | "n = Suc 0" | "n = Suc (Suc 0)" | "n = Suc (Suc (Suc 0))"
    using assms(1) by arith
  then show ?thesis
  proof cases
    case 1
    with assms(2) show ?thesis
      by (auto simp add: graph_nodes_def retrieve_memory_node_def map_add_upd_self
          simp del: map_add_upd split: option.splits sum.splits)
  next
    case 2
    with assms(2) show ?thesis
      by (auto simp add: graph_nodes_def retrieve_knowledge_node_def map_add_upd_self
          simp del: map_add_upd split: option.splits sum.splits)
  next
    case 3
    with assms(2) show ?thesis
      by (auto simp add: graph_nodes_def generate_response_node_def Let_def map_add_upd_self
          simp del: map_add_upd split: option.splits sum.splits prod.splits)
  next
    case 4
    with assms(2) show ?thesis
      by (auto simp add: graph_nodes_def update_memory_node_def numeral_3_eq_3
          split: option.splits sum.splits prod.splits)
  qed
qed

lemma fields_after_disjoint: "n < 4 \<Longrightarrow> fields_after n \<inter> stage_fields n = {}"
proof -
  assume "n < 4"
  then consider "n = 0" | "n = 1" | "n = 2" | "n = 3" by linarith
  then show ?thesis
    by cases (simp_all add: numeral_2_eq_2 numeral_3_eq_3)
qed

text \<open>
  Claim C10. A query is run from the state that holds only \<open>input\<close>, and the graph
  merges the dictionary a stage returns into the state the stage received. For each of
  the four stages (counted from 0), with \<open>s\<close> the state it receives, \<open>u\<close> the dictionary
  it returns and \<open>s ++ u\<close> the state after it: every field of \<open>s\<close> keeps its value
  (\<open>s\<close> is a submap of \<open>s ++ u\<close>), \<open>input\<close> is the query before and after, the fields
  after are those before plus the stage's own field (\<open>memory\<close>, \<open>knowledge\<close>,
  \<open>response\<close>; none for the last stage), and that field was not set before. The
  dictionary returned by each of the first three stages is itself the whole state after
  the stage; the last stage returns the empty dictionary.
\<close>

theorem agent_state_additive:
  assumes "n < 4"
    and "run_nodes (take n (graph_nodes E vm)) w [''input'' \<mapsto> q] = (Inr s, w1)"
    and "(graph_nodes E vm ! n) w1 s = (Inr u, w2)"
  shows "s \<subseteq>\<^sub>m s ++ u \<and> s ''input'' = Some q \<and> (s ++ u) ''input'' = Some q \<and>
         dom (s ++ u) = dom s \<union> stage_fields n \<and> dom s \<inter> stage_fields n = {} \<and>
         (n < 3 \<longrightarrow> s ++ u = u) \<and> (n = 3 \<longrightarrow> u = Map.empty)"
proof -
  have le: "n \<le> 4" using assms(1) by simp
  from prefix_state[OF le assms(2)] have i: "s ''input'' = Some q" and d: "dom s = fields_after n"
    by simp_all
  from fields_after_disjoint[OF assms(1)] d have dis: "dom s \<inter> stage_fields n = {}" by simp
  note ret = stage_returns[OF assms(1) assms(3)]
  have main: "s \<subseteq>\<^sub>m s ++ u \<and> s ''input'' = Some q \<and> (s ++ u) ''input'' = Some q \<and>
         dom (s ++ u) = dom s \<union> stage_fields n \<and> dom s \<inter> stage_fields n = {}"
    using stage_update[OF assms(1) assms(3)]
  proof
    assume "\<exists>f v. stage_fields n = {f} \<and> s ++ u = s(f \<mapsto> v)"
    then obtain f v where f: "stage_fields n = {f}" and e: "s ++ u = s(f \<mapsto> v)" by blast
    have nf: "f \<notin> dom s" using dis f by simp
    then have "s f = None" by (simp add: domIff)
    then have sub: "s \<subseteq>\<^sub>m s(f \<mapsto> v)" by (auto simp add: map_le_def)
    have "f \<noteq> ''input''" using nf i by auto
    then have i': "(s(f \<mapsto> v)) ''input'' = Some q" using i by simp
    have "dom (s(f \<mapsto> v)) = dom s \<union> stage_fields n" using f by (simp only: dom_fun_upd) simp
    with sub i i' dis e show ?thesis by simp
  next
    assume "stage_fields n = {} \<and> s ++ u = s"
    with i dis show ?thesis by simp
  qed
  from main ret show ?thesis by iprover
qed


theorem agent_state_additive_witness:
  "run_nodes (take 2 (graph_nodes sample_env sample_vm)) sample_world [''input'' \<mapsto> ''Capital?'']
     = (Inr [''input'' \<mapsto> ''Capital?'', ''memory'' \<mapsto> ''input: Hi\<newline>output: Hello'',
             ''knowledge'' \<mapsto> ''France: Paris''], sample_world) \<and>
   (graph_nodes sample_env sample_vm ! 2) sample_world
       [''input'' \<mapsto> ''Capital?'', ''memory'' \<mapsto> ''input: Hi\<newline>output: Hello'',
        ''knowledge'' \<mapsto> ''France: Paris'']
     = (Inr [''input'' \<mapsto> ''Capital?'', ''memory'' \<mapsto> ''input: Hi\<newline>output: Hello'',
             ''knowledge'' \<mapsto> ''France: Paris'', ''response'' \<mapsto> ''Paris''],
        sample_world\<lparr>trace :=
          [LlmInvoke ''Knowledge:\<newline>France: Paris\<newline>\<newline>Conversation History:\<newline>input: Hi\<newline>output: Hello\<newline>\<newline>User: Capital?'']\<rparr>) \<and>
   dom ([''input'' \<mapsto> ''Capital?'', ''memory'' \<mapsto> ''input: Hi\<newline>output: Hello'',
         ''knowledge'' \<mapsto> ''France: Paris''] ++
        [''input'' \<mapsto> ''Capital?'', ''memory'' \<mapsto> ''input: Hi\<newline>output: Hello'',
         ''knowledge'' \<mapsto> ''France: Paris'', ''response'' \<mapsto> ''Paris''])
     = {''input'', ''memory'', ''knowledge'', ''response''}"
proof -
  have r: "run_nodes (take 2 (graph_nodes sample_env sample_vm)) sample_world [''input'' \<mapsto> ''Capital?'']
     = (Inr [''input'' \<mapsto> ''Capital?'', ''memory'' \<mapsto> ''input: Hi\<newline>output: Hello'',
             ''knowledge'' \<mapsto> ''France: Paris''], sample_world)"
    by (simp add: graph_nodes_def numeral_2_eq_2 retrieve_memory_node_def retrieve_knowledge_node_def
        sample_world_memory sample_world_knowledge map_add_upd_self del: map_add_upd)
  have st: "(graph_nodes sample_env sample_vm ! 2) sample_world
       [''input'' \<mapsto> ''Capital?'', ''memory'' \<mapsto> ''input: Hi\<newline>output: Hello'',
        ''knowledge'' \<mapsto> ''France: Paris'']
     = (Inr [''input'' \<mapsto> ''Capital?'', ''memory'' \<mapsto> ''input: Hi\<newline>output: Hello'',
             ''knowledge'' \<mapsto> ''France: Paris'', ''response'' \<mapsto> ''Paris''],
        sample_world\<lparr>trace :=
          [LlmInvoke ''Knowledge:\<newline>France: Paris\<newline>\<newline>Conversation History:\<newline>input: Hi\<newline>output: Hello\<newline>\<newline>User: Capital?'']\<rparr>)"
    by (simp add: graph_nodes_def numeral_2_eq_2 generate_response_node_def llm_invoke_def
        build_prompt_def state_get_def sample_env_def sample_world_def Let_def)
  show ?thesis
    using agent_state_additive [of 2, OF _ r st] r st
    by (simp add: numeral_2_eq_2 insert_commute)
qed

section \<open>Sampling a chunk for the quiz\<close>

lemma get_random_knowledge_chunks_fails:
  "get_random_knowledge_chunks E vm num_chunks w =
     Inl (AttributeError ''VectorStoreManager'' ''get_random_knowledge_chunks'')"
  by (simp add: get_random_knowledge_chunks_def VectorStoreManager_attributes_def)

lemma sample_world_status:
  "total_chunks (get_knowledge_base_status sample_env sample_vm sample_world) = 1"
  by (simp add: get_knowledge_base_status_def store_get_def collection_def sample_env_def
      sample_vm_def sample_world_def chroma_memory_dir_def chroma_kb_dir_def Let_def)

text \<open>
  Claim C5. Whatever the knowledge base holds, the call
  \<^verbatim>\<open>vector_manager.get_random_knowledge_chunks(num_chunks=1)\<close> raises
  \<^verbatim>\<open>AttributeError\<close>, the class defining no such method. So the command-line quiz,
  once past the check that the knowledge base is not empty, leaves its loop at the first
  statement with this exception, having asked nothing (and with an empty knowledge base
  it only reports that); and \<open>generate_quiz_question\<close> of the web front end shows the
  error, leaves the current question as it was and calls the chat model not at all.
\<close>

theorem quiz_sampling_always_fails:
  "get_random_knowledge_chunks E vm num_chunks w =
     Inl (AttributeError ''VectorStoreManager'' ''get_random_knowledge_chunks'') \<and>
   RAGAssistant_start_quiz (Suc fuel) E vm stdin w =
     Some (if 0 < total_chunks (get_knowledge_base_status E vm w)
           then ((Some (AttributeError ''VectorStoreManager'' ''get_random_knowledge_chunks''), []), w)
           else ((None, [KnowledgeBaseEmpty]), w)) \<and>
   generate_quiz_question E vm session w =
     (session\<lparr>shown_errors := shown_errors session @
        [ErrorGenerating (str_exn (AttributeError ''VectorStoreManager'' ''get_random_knowledge_chunks''))]\<rparr>, w) \<and>
   current_question (fst (generate_quiz_question E vm session w)) = current_question session \<and>
   llm_calls (trace (snd (generate_quiz_question E vm session w))) = llm_calls (trace w)"
  by (simp add: get_random_knowledge_chunks_fails RAGAssistant_start_quiz_def generate_quiz_question_def Let_def)

theorem quiz_sampling_always_fails_witness:
  "total_chunks (get_knowledge_base_status sample_env sample_vm sample_world) = 1 \<and>
   RAGAssistant_start_quiz 1 sample_env sample_vm [''A'', ''n''] sample_world =
     Some ((Some (AttributeError ''VectorStoreManager'' ''get_random_knowledge_chunks''), []), sample_world) \<and>
   generate_quiz_question sample_env sample_vm
       \<lparr>student_class = None, current_question = JNull, shown_errors = []\<rparr> sample_world =
     (\<lparr>student_class = None, current_question = JNull,
       shown_errors = [ErrorGenerating
         (str_exn (AttributeError ''VectorStoreManager'' ''get_random_knowledge_chunks''))]\<rparr>,
      sample_world)"
  using quiz_sampling_always_fails
      [of sample_env sample_vm 1 sample_world 0 "[''A'', ''n'']"
          "\<lparr>student_class = None, current_question = JNull, shown_errors = []\<rparr>"]
    sample_world_status
  by simp

section \<open>Failures of the retrieval and of the completion call\<close>

lemma process_user_input_memory_fails:
  "load_memory_variables E vm q w = Inl e \<Longrightarrow> process_user_input E vm w q = (Inl e, w)"
  by (simp add: process_user_input_def memory_agent_invoke_def graph_nodes_def retrieve_memory_node_def)

lemma process_user_input_knowledge_fails:
  "load_memory_variables E vm q w = Inr history \<Longrightarrow> retrieve_knowledge E vm q w = Inl e \<Longrightarrow>
   process_user_input E vm w q = (Inl e, w)"
  by (simp add: process_user_input_def memory_agent_invoke_def graph_nodes_def retrieve_memory_node_def
      retrieve_knowledge_node_def)

lemma memory_outage:
  "load_memory_variables memory_outage_env sample_vm q w = Inl (ProviderError ''embedding service unavailable'')"
  by (simp add: load_memory_variables_def similarity_search_def memory_outage_env_def sample_env_def sample_vm_def)

lemma knowledge_outage:
  "retrieve_knowledge knowledge_outage_env sample_vm q w = Inl (ProviderError ''embedding service unavailable'')"
  by (simp add: retrieve_knowledge_def similarity_search_def knowledge_outage_env_def sample_env_def sample_vm_def)

lemma knowledge_outage_memory:
  "load_memory_variables knowledge_outage_env sample_vm q sample_world = Inr ''input: Hi\<newline>output: Hello''"
  by (simp add: load_memory_variables_def similarity_search_def knowledge_outage_env_def sample_env_def
      sample_vm_def sample_world_def collection_def chroma_memory_dir_def chroma_kb_dir_def)

text \<open>
  Claim C1. The two retrieval nodes of \<^verbatim>\<open>GraphNodes\<close> have no handler: when
  \<^verbatim>\<open>load_memory_variables\<close> or \<^verbatim>\<open>retrieve_knowledge\<close> raises, the node raises the
  same exception instead of returning the state with an empty \<open>memory\<close> or
  \<open>knowledge\<close>, and \<open>process_user_input\<close> raises it too, the world left as it was: the
  Generate stage is not reached, no completion call is issued and no answer is returned.
\<close>

theorem retrieval_failure_aborts_pipeline:
  "(state ''input'' = Some q \<and> load_memory_variables E vm q w = Inl e \<longrightarrow>
      retrieve_memory_node E vm w state = (Inl e, w)) \<and>
   (state ''input'' = Some q \<and> retrieve_knowledge E vm q w = Inl e \<longrightarrow>
      retrieve_knowledge_node E vm w state = (Inl e, w)) \<and>
   (load_memory_variables E vm q w = Inl e \<longrightarrow> process_user_input E vm w q = (Inl e, w)) \<and>
   (load_memory_variables E vm q w = Inr history \<and> retrieve_knowledge E vm q w = Inl e \<longrightarrow>
      process_user_input E vm w q = (Inl e, w))"
  by (simp add: process_user_input_memory_fails process_user_input_knowledge_fails
      retrieve_memory_node_def retrieve_knowledge_node_def)

theorem retrieval_failure_aborts_pipeline_witness:
  "load_memory_variables memory_outage_env sample_vm ''Capital?'' sample_world
     = Inl (ProviderError ''embedding service unavailable'') \<and>
   retrieve_memory_node memory_outage_env sample_vm sample_world [''input'' \<mapsto> ''Capital?'']
     = (Inl (ProviderError ''embedding service unavailable''), sample_world) \<and>
   process_user_input memory_outage_env sample_vm sample_world ''Capital?''
     = (Inl (ProviderError ''embedding service unavailable''), sample_world) \<and>
   retrieve_knowledge knowledge_outage_env sample_vm ''Capital?'' sample_world
     = Inl (ProviderError ''embedding service unavailable'') \<and>
   retrieve_knowledge_node knowledge_outage_env sample_vm sample_world [''input'' \<mapsto> ''Capital?'']
     = (Inl (ProviderError ''embedding service unavailable''), sample_world) \<and>
   process_user_input knowledge_outage_env sample_vm sample_world ''Capital?''
     = (Inl (ProviderError ''embedding service unavailable''), sample_world)"
  using retrieval_failure_aborts_pipeline
      [of "[''input'' \<mapsto> ''Capital?'']" "''Capital?''" memory_outage_env sample_vm sample_world
          "ProviderError ''embedding service unavailable''" "[]"]
    retrieval_failure_aborts_pipeline
      [of "[''input'' \<mapsto> ''Capital?'']" "''Capital?''" knowledge_outage_env sample_vm sample_world
          "ProviderError ''embedding service unavailable''" "''input: Hi\<newline>output: Hello''"]
    memory_outage [of "''Capital?''" sample_world] knowledge_outage [of "''Capital?''" sample_world]
    knowledge_outage_memory [of "''Capital?''"]
  by simp

lemma process_user_input_Inr:
  "process_user_input E vm w q = (Inr r, w') \<Longrightarrow> \<exists>p. llm E p = Inr r"
  by (auto simp add: process_user_input_def memory_agent_invoke_def graph_nodes_def
      retrieve_memory_node_def retrieve_knowledge_node_def generate_response_node_def
      update_memory_node_def llm_invoke_def state_get_def Let_def
      split: sum.splits prod.splits option.splits)

lemma process_user_input_llm_fails:
  "load_memory_variables E vm q w = Inr history \<Longrightarrow> retrieve_knowledge E vm q w = Inr knowledge \<Longrightarrow>
   llm E (build_prompt knowledge history q) = Inl e \<Longrightarrow>
   process_user_input E vm w q = (Inl e, w\<lparr>trace := trace w @ [LlmInvoke (build_prompt knowledge history q)]\<rparr>)"
  by (simp add: process_user_input_def memory_agent_invoke_def graph_nodes_def
      retrieve_memory_node_def retrieve_knowledge_node_def generate_response_node_def
      llm_invoke_def state_get_def Let_def)


lemma generate_response_node_llm_fails:
  "state ''input'' = Some q \<Longrightarrow>
   llm E (build_prompt (state_get state ''knowledge'' []) (state_get state ''memory'' []) q) = Inl e \<Longrightarrow>
   fst (generate_response_node E w state) = Inl e"
  by (simp add: generate_response_node_def llm_invoke_def Let_def)

lemma sample_env_llm: "llm sample_env p = Inr ''Paris''"
  by (simp add: sample_env_def)

lemma sample_env_add_error: "add_error sample_env c ds = None"
  by (simp add: sample_env_def)

lemma sample_env_answer:
  "fst (process_user_input sample_env sample_vm sample_world ''Capital?'') = Inr ''Paris''"
  by (simp add: process_user_input_def memory_agent_invoke_def graph_nodes_def
      retrieve_memory_node_def retrieve_knowledge_node_def generate_response_node_def
      update_memory_node_def save_memory_context_def save_context_def add_documents_def
      llm_invoke_def state_get_def Let_def sample_world_memory sample_world_knowledge
      sample_env_llm sample_env_add_error)

text \<open>
  Claim C2. \<^verbatim>\<open>generate_response_node\<close> has no handler either: when the completion call
  raises, the node raises the same exception, and so does \<open>process_user_input\<close>, after
  the one call and with nothing saved to memory. The apologetic default of
  \<open>process_user_input\<close> is not what a failure gives: whenever \<open>process_user_input\<close>
  returns a string, it is the content of a completion that succeeded.
\<close>

theorem llm_failure_propagates:
  "(state ''input'' = Some q \<and>
    llm E (build_prompt (state_get state ''knowledge'' []) (state_get state ''memory'' []) q) = Inl e \<longrightarrow>
      fst (generate_response_node E w state) = Inl e) \<and>
   (load_memory_variables E vm q w = Inr history \<and> retrieve_knowledge E vm q w = Inr knowledge \<and>
    llm E (build_prompt knowledge history q) = Inl e \<longrightarrow>
      process_user_input E vm w q =
        (Inl e, w\<lparr>trace := trace w @ [LlmInvoke (build_prompt knowledge history q)]\<rparr>)) \<and>
   (process_user_input E vm w q = (Inr r, w') \<longrightarrow> (\<exists>p. llm E p = Inr r))"
proof -
  have a: "state ''input'' = Some q \<and>
    llm E (build_prompt (state_get state ''knowledge'' []) (state_get state ''memory'' []) q) = Inl e \<longrightarrow>
      fst (generate_response_node E w state) = Inl e"
    by (simp add: generate_response_node_llm_fails)
  have b: "load_memory_variables E vm q w = Inr history \<and> retrieve_knowledge E vm q w = Inr knowledge \<and>
    llm E (build_prompt knowledge history q) = Inl e \<longrightarrow>
      process_user_input E vm w q =
        (Inl e, w\<lparr>trace := trace w @ [LlmInvoke (build_prompt knowledge history q)]\<rparr>)"
    by (simp add: process_user_input_llm_fails)
  have c: "process_user_input E vm w q = (Inr r, w') \<longrightarrow> (\<exists>p. llm E p = Inr r)"
    using process_user_input_Inr by blast
  from a b c show ?thesis by iprover
qed

theorem llm_failure_propagates_witness:
  "load_memory_variables llm_outage_env sample_vm ''Capital?'' sample_world = Inr ''input: Hi\<newline>output: Hello'' \<and>
   retrieve_knowledge llm_outage_env sample_vm ''Capital?'' sample_world = Inr ''France: Paris'' \<and>
   fst (generate_response_node llm_outage_env sample_world [''input'' \<mapsto> ''Capital?''])
     = Inl (ProviderError ''completion service unavailable'') \<and>
   process_user_input llm_outage_env sample_vm sample_world ''Capital?''
     = (Inl (ProviderError ''completion service unavailable''),
        sample_world\<lparr>trace :=
          [LlmInvoke ''Knowledge:\<newline>France: Paris\<newline>\<newline>Conversation History:\<newline>input: Hi\<newline>output: Hello\<newline>\<newline>User: Capital?'']\<rparr>) \<and>
   fst (process_user_input sample_env sample_vm sample_world ''Capital?'') = Inr ''Paris'' \<and>
   llm sample_env ''User: Capital?'' = Inr ''Paris''"
proof -
  have m: "load_memory_variables llm_outage_env sample_vm ''Capital?'' sample_world = Inr ''input: Hi\<newline>output: Hello''"
    by (simp add: load_memory_variables_def similarity_search_def llm_outage_env_def sample_env_def
        sample_vm_def sample_world_def collection_def chroma_memory_dir_def chroma_kb_dir_def)
  have k: "retrieve_knowledge llm_outage_env sample_vm ''Capital?'' sample_world = Inr ''France: Paris''"
    by (simp add: retrieve_knowledge_def similarity_search_def llm_outage_env_def sample_env_def
        sample_vm_def sample_world_def collection_def chroma_memory_dir_def chroma_kb_dir_def)
  have l: "llm llm_outage_env p = Inl (ProviderError ''completion service unavailable'')" for p
    by (simp add: llm_outage_env_def sample_env_def)
  have ok: "process_user_input sample_env sample_vm sample_world ''Capital?'' =
      (Inr ''Paris'', snd (process_user_input sample_env sample_vm sample_world ''Capital?''))"
    using sample_env_answer by (simp add: prod_eq_iff)
  have t: "trace sample_world = []" by (simp add: sample_world_def)
  show ?thesis
    using llm_failure_propagates
        [of "[''input'' \<mapsto> ''Capital?'']" "''Capital?''" llm_outage_env
            "ProviderError ''completion service unavailable''" sample_world sample_vm
            "''input: Hi\<newline>output: Hello''" "''France: Paris''"]
      llm_failure_propagates
        [of "[''input'' \<mapsto> ''Capital?'']" "''Capital?''" sample_env
            "ProviderError ''completion service unavailable''" sample_world sample_vm
            "''input: Hi\<newline>output: Hello''" "''France: Paris''" "''Paris''"
            "snd (process_user_input sample_env sample_vm sample_world ''Capital?'')"]
      m k l ok sample_env_answer t sample_env_llm
    by (simp add: build_prompt_def)
qed

section \<open>Restarts\<close>

lemma form_documents_memory_record:
  "form_documents [(''input'', q)] [(''output'', a)] = [memory_record q a]"
  by (simp add: form_documents_def memory_record_def)

lemma VectorStoreManager_init_result:
  assumes "VectorStoreManager_init memory_dir kb_dir w0 = (vm, w)"
  shows "vm = \<lparr>memory_vectorstore = (memory_dir, ''long_term_memory''),
               knowledge_vectorstore = (kb_dir, ''knowledge_base'')\<rparr>"
    and "disk w (memory_dir, ''long_term_memory'') \<noteq> None"
    and "disk w (kb_dir, ''knowledge_base'') \<noteq> None"
    and "collection w store = collection w0 store"
    and "trace w = trace w0"
  using assms
  by (auto simp add: VectorStoreManager_init_def Chroma_def collection_def split: option.splits if_splits)

lemma VectorStoreManager_init_again:
  assumes "disk w (memory_dir, ''long_term_memory'') \<noteq> None"
    and "disk w (kb_dir, ''knowledge_base'') \<noteq> None"
  shows "VectorStoreManager_init memory_dir kb_dir w =
           (\<lparr>memory_vectorstore = (memory_dir, ''long_term_memory''),
             knowledge_vectorstore = (kb_dir, ''knowledge_base'')\<rparr>, w)"
  using assms
  by (auto simp add: VectorStoreManager_init_def Chroma_def split: option.splits)

lemma save_memory_context_result:
  assumes "save_memory_context E vm q a w = (Inr u, w1)"
  shows "disk w1 = (disk w)(memory_vectorstore vm \<mapsto> collection w (memory_vectorstore vm) @ [memory_record q a])"
  using assms
  by (auto simp add: save_memory_context_def save_context_def add_documents_def Let_def
      form_documents_memory_record collection_def split: option.splits)


lemma similarity_search_all:
  assumes "search_error E (snd store) q = None" and "length (collection w store) \<le> k"
  shows "similarity_search E store k q w = Inr (sort_key (\<lambda>d. distance E q (page_content d)) (collection w store))"
  using assms by (simp add: similarity_search_def)

lemma RAGAssistant_init_resets:
  assumes "reset_error E ''long_term_memory'' = None" and "reset_error E ''knowledge_base'' = None"
  shows "\<exists>w2. RAGAssistant_init E w = (Inr sample_vm, w2) \<and>
           collection w2 (memory_vectorstore sample_vm) = [] \<and>
           collection w2 (knowledge_vectorstore sample_vm) = []"
  using assms
  by (auto simp add: RAGAssistant_init_def VectorStoreManager_init_def Chroma_def reset_collections_def
      reset_collection_def sample_vm_def collection_def split: option.splits)

lemma started_world_init:
  "VectorStoreManager_init chroma_memory_dir chroma_kb_dir empty_world = (sample_vm, started_world)"
  by (simp add: started_world_def VectorStoreManager_init_def Chroma_def sample_vm_def empty_world_def
      split: option.splits)

lemma saved_world_save:
  "save_memory_context sample_env sample_vm ''Capital?'' ''Paris'' started_world = (Inr (), saved_world)"
  by (simp add: saved_world_def save_memory_context_def save_context_def add_documents_def Let_def
      sample_env_def)

lemma started_world_memory: "collection started_world (memory_vectorstore sample_vm) = []"
  by (simp add: started_world_def VectorStoreManager_init_def Chroma_def sample_vm_def empty_world_def
      collection_def chroma_memory_dir_def chroma_kb_dir_def split: option.splits)

lemma sample_env_search_error: "search_error sample_env c q = None"
  by (simp add: sample_env_def)

lemma sample_env_reset_error: "reset_error sample_env c = None"
  by (simp add: sample_env_def)

lemma saved_world_memory:
  "collection saved_world (memory_vectorstore sample_vm) = [memory_record ''Capital?'' ''Paris'']"
  using save_memory_context_result [OF saved_world_save] started_world_memory
  by (simp add: collection_def)

lemma saved_world_load:
  "load_memory_variables sample_env sample_vm ''Capital?'' saved_world = Inr ''input: Capital?\<newline>output: Paris''"
  using saved_world_memory
  by (simp add: load_memory_variables_def similarity_search_def sample_env_search_error memory_record_def)

text \<open>
  Claim C4, amended. Let the store manager be constructed over two persistence
  directories and an exchange be saved with \<^verbatim>\<open>save_memory_context(q, a)\<close>. Then
  constructing the store manager again over the same directories gives the same two
  collections and changes nothing: the memory collection holds what it held plus the
  record of the exchange, and \<^verbatim>\<open>load_memory_variables(q)\<close> returns a text that has the
  record among its lines when the search does not fail and the memory held fewer than
  five records before (the retriever returns the five nearest only). The assistant of
  aitutor/main.py, started over the configured directories, is this construction. The
  assistant of docs+response-generation/main.py resets both collections on startup: after
  its construction they are empty.
\<close>

theorem collections_survive_manager_restart:
  assumes "VectorStoreManager_init memory_dir kb_dir w0 = (vm, w)"
    and "save_memory_context E vm q a w = (Inr u, w1)"
  shows "VectorStoreManager_init memory_dir kb_dir w1 = (vm, w1) \<and>
         collection w1 (memory_vectorstore vm) = collection w (memory_vectorstore vm) @ [memory_record q a] \<and>
         (search_error E ''long_term_memory'' q = None \<and> length (collection w (memory_vectorstore vm)) < 5 \<longrightarrow>
            (\<exists>docs. similarity_search E (memory_vectorstore vm) 5 q w1 = Inr docs \<and>
                    memory_record q a \<in> set docs \<and>
                    load_memory_variables E vm q w1 = Inr (join ''\<newline>'' (map page_content docs)))) \<and>
         (memory_dir = chroma_memory_dir \<and> kb_dir = chroma_kb_dir \<longrightarrow>
            aitutor_RAGAssistant_init E w1 = (Inr vm, w1)) \<and>
         (memory_dir = chroma_memory_dir \<and> kb_dir = chroma_kb_dir \<and>
          reset_error E ''long_term_memory'' = None \<and> reset_error E ''knowledge_base'' = None \<longrightarrow>
            (\<exists>w2. RAGAssistant_init E w1 = (Inr vm, w2) \<and>
                  collection w2 (memory_vectorstore vm) = [] \<and>
                  collection w2 (knowledge_vectorstore vm) = []))"
proof -
  note init = VectorStoreManager_init_result[OF assms(1)]
  have mv: "memory_vectorstore vm = (memory_dir, ''long_term_memory'')" using init(1) by simp
  have kv: "knowledge_vectorstore vm = (kb_dir, ''knowledge_base'')" using init(1) by simp
  note d1 = save_memory_context_result[OF assms(2)]
  have m1: "disk w1 (memory_dir, ''long_term_memory'') \<noteq> None" using d1 mv by simp
  have k1: "disk w1 (kb_dir, ''knowledge_base'') \<noteq> None" using d1 mv init(3) by simp
  have again: "VectorStoreManager_init memory_dir kb_dir w1 = (vm, w1)"
    using VectorStoreManager_init_again[OF m1 k1] init(1) by simp
  have col: "collection w1 (memory_vectorstore vm) = collection w (memory_vectorstore vm) @ [memory_record q a]"
    using d1 by (simp add: collection_def)
  have load: "search_error E ''long_term_memory'' q = None \<and> length (collection w (memory_vectorstore vm)) < 5 \<longrightarrow>
            (\<exists>docs. similarity_search E (memory_vectorstore vm) 5 q w1 = Inr docs \<and>
                    memory_record q a \<in> set docs \<and>
                    load_memory_variables E vm q w1 = Inr (join ''\<newline>'' (map page_content docs)))"
  proof
    assume h: "search_error E ''long_term_memory'' q = None \<and> length (collection w (memory_vectorstore vm)) < 5"
    have se: "search_error E (snd (memory_vectorstore vm)) q = None" using h mv by simp
    have le: "length (collection w1 (memory_vectorstore vm)) \<le> 5" using h col by simp
    note ss = similarity_search_all[OF se le]
    have "memory_record q a \<in> set (sort_key (\<lambda>d. distance E q (page_content d)) (collection w1 (memory_vectorstore vm)))"
      using col by simp
    moreover have "load_memory_variables E vm q w1 =
        Inr (join ''\<newline>'' (map page_content (sort_key (\<lambda>d. distance E q (page_content d)) (collection w1 (memory_vectorstore vm)))))"
      using ss by (simp add: load_memory_variables_def)
    ultimately show "\<exists>docs. similarity_search E (memory_vectorstore vm) 5 q w1 = Inr docs \<and>
                    memory_record q a \<in> set docs \<and>
                    load_memory_variables E vm q w1 = Inr (join ''\<newline>'' (map page_content docs))"
      using ss by blast
  qed
  have ait: "memory_dir = chroma_memory_dir \<and> kb_dir = chroma_kb_dir \<longrightarrow>
            aitutor_RAGAssistant_init E w1 = (Inr vm, w1)"
    using again by (auto simp add: aitutor_RAGAssistant_init_def)
  have rst: "memory_dir = chroma_memory_dir \<and> kb_dir = chroma_kb_dir \<and>
          reset_error E ''long_term_memory'' = None \<and> reset_error E ''knowledge_base'' = None \<longrightarrow>
            (\<exists>w2. RAGAssistant_init E w1 = (Inr vm, w2) \<and>
                  collection w2 (memory_vectorstore vm) = [] \<and>
                  collection w2 (knowledge_vectorstore vm) = [])"
  proof
    assume h: "memory_dir = chroma_memory_dir \<and> kb_dir = chroma_kb_dir \<and>
          reset_error E ''long_term_memory'' = None \<and> reset_error E ''knowledge_base'' = None"
    then have "vm = sample_vm" using init(1) by (simp add: sample_vm_def)
    then show "\<exists>w2. RAGAssistant_init E w1 = (Inr vm, w2) \<and>
                  collection w2 (memory_vectorstore vm) = [] \<and>
                  collection w2 (knowledge_vectorstore vm) = []"
      using RAGAssistant_init_resets[of E w1] h by simp
  qed
  from again col load ait rst show ?thesis by iprover
qed


theorem collections_survive_manager_restart_witness:
  "VectorStoreManager_init chroma_memory_dir chroma_kb_dir empty_world = (sample_vm, started_world) \<and>
   save_memory_context sample_env sample_vm ''Capital?'' ''Paris'' started_world = (Inr (), saved_world) \<and>
   VectorStoreManager_init chroma_memory_dir chroma_kb_dir saved_world = (sample_vm, saved_world) \<and>
   collection saved_world (memory_vectorstore sample_vm) = [memory_record ''Capital?'' ''Paris''] \<and>
   load_memory_variables sample_env sample_vm ''Capital?'' saved_world = Inr ''input: Capital?\<newline>output: Paris'' \<and>
   aitutor_RAGAssistant_init sample_env saved_world = (Inr sample_vm, saved_world)"
  using collections_survive_manager_restart [OF started_world_init saved_world_save]
    started_world_init saved_world_save started_world_memory saved_world_load
  by simp

text \<open>
  Claim C4 as worded fails for a restart of the application of
  docs+response-generation/main.py: an exchange is saved, the assistant is constructed
  again over the same directories, and the memory collection is empty, so that
  \<^verbatim>\<open>load_memory_variables\<close> of the same question returns the empty text.
\<close>

theorem application_restart_empties_memory:
  "save_memory_context sample_env sample_vm ''Capital?'' ''Paris'' started_world = (Inr (), saved_world) \<and>
   collection saved_world (memory_vectorstore sample_vm) = [memory_record ''Capital?'' ''Paris''] \<and>
   fst (RAGAssistant_init sample_env saved_world) = Inr sample_vm \<and>
   collection (snd (RAGAssistant_init sample_env saved_world)) (memory_vectorstore sample_vm) = [] \<and>
   load_memory_variables sample_env sample_vm ''Capital?'' (snd (RAGAssistant_init sample_env saved_world)) = Inr []"
proof -
  obtain w2 where r: "RAGAssistant_init sample_env saved_world = (Inr sample_vm, w2)"
    and e: "collection w2 (memory_vectorstore sample_vm) = []"
    using RAGAssistant_init_resets [OF sample_env_reset_error sample_env_reset_error, of saved_world] by blast
  have l: "load_memory_variables sample_env sample_vm ''Capital?'' w2 = Inr []"
    using e by (simp add: load_memory_variables_def similarity_search_def sample_env_search_error)
  show ?thesis using saved_world_save saved_world_memory r e l by simp
qed

section \<open>Reset and status\<close>

lemma reset_collections_result:
  assumes "reset_error E (snd (memory_vectorstore vm)) = None"
    and "reset_error E (snd (knowledge_vectorstore vm)) = None"
  shows "reset_collections E vm w =
           (Inr (), w\<lparr>disk := (disk w)(memory_vectorstore vm \<mapsto> [], knowledge_vectorstore vm \<mapsto> [])\<rparr>)"
  using assms by (simp add: reset_collections_def reset_collection_def)

lemma status_of_empty:
  "collection w (knowledge_vectorstore vm) = [] \<Longrightarrow> total_chunks (get_knowledge_base_status E vm w) = 0"
  by (simp add: get_knowledge_base_status_def store_get_def Let_def split: option.splits sum.splits)

lemma status_of_empty_success:
  "collection w (knowledge_vectorstore vm) = [] \<Longrightarrow> get_error E (snd (knowledge_vectorstore vm)) = None \<Longrightarrow>
   get_knowledge_base_status E vm w = \<lparr>total_chunks = 0, file_types = Map.empty, success = True, error = None\<rparr>"
  by (simp add: get_knowledge_base_status_def store_get_def Let_def)

lemma sample_env_get_error: "get_error sample_env c = None"
  by (simp add: sample_env_def)

lemma sample_world_memory_collection:
  "collection sample_world (memory_vectorstore sample_vm) =
     [\<lparr>page_content = ''input: Hi\<newline>output: Hello'', metadata = Map.empty\<rparr>]"
  by (simp add: sample_world_def sample_vm_def collection_def chroma_memory_dir_def chroma_kb_dir_def)

lemma sample_vm_stores: "memory_vectorstore sample_vm \<noteq> knowledge_vectorstore sample_vm"
  by (simp add: sample_vm_def)

text \<open>
  Claim C9, amended. The store manager has one reset, \<^verbatim>\<open>reset_collections\<close>, and when
  neither store raises it empties both collections, the memory as well as the knowledge
  base, and leaves every other collection as it was; \<^verbatim>\<open>get_knowledge_base_status\<close>
  called on the world it leaves reports \<open>total_chunks = 0\<close> (with success and no file
  types when reading the store does not fail). A reset of the knowledge base alone exists
  in the web front end of the Streamlit application only: its button empties the
  knowledge collection, leaves every other collection, the memory included, unchanged,
  and the status afterwards reports \<open>total_chunks = 0\<close> too.
\<close>

theorem reset_collections_empties_both:
  "(reset_error E (snd (memory_vectorstore vm)) = None \<and>
    reset_error E (snd (knowledge_vectorstore vm)) = None \<longrightarrow>
      fst (reset_collections E vm w) = Inr () \<and>
      collection (snd (reset_collections E vm w)) (knowledge_vectorstore vm) = [] \<and>
      collection (snd (reset_collections E vm w)) (memory_vectorstore vm) = [] \<and>
      (other \<noteq> memory_vectorstore vm \<and> other \<noteq> knowledge_vectorstore vm \<longrightarrow>
         collection (snd (reset_collections E vm w)) other = collection w other) \<and>
      total_chunks (get_knowledge_base_status E vm (snd (reset_collections E vm w))) = 0 \<and>
      (get_error E (snd (knowledge_vectorstore vm)) = None \<longrightarrow>
         get_knowledge_base_status E vm (snd (reset_collections E vm w)) =
           \<lparr>total_chunks = 0, file_types = Map.empty, success = True, error = None\<rparr>)) \<and>
   (reset_error E (snd (knowledge_vectorstore vm)) = None \<longrightarrow>
      collection (clear_knowledge_base E vm w) (knowledge_vectorstore vm) = [] \<and>
      (store \<noteq> knowledge_vectorstore vm \<longrightarrow>
         collection (clear_knowledge_base E vm w) store = collection w store) \<and>
      total_chunks (get_knowledge_base_status E vm (clear_knowledge_base E vm w)) = 0)"
proof -
  have a: "reset_error E (snd (memory_vectorstore vm)) = None \<and>
    reset_error E (snd (knowledge_vectorstore vm)) = None \<longrightarrow>
      fst (reset_collections E vm w) = Inr () \<and>
      collection (snd (reset_collections E vm w)) (knowledge_vectorstore vm) = [] \<and>
      collection (snd (reset_collections E vm w)) (memory_vectorstore vm) = [] \<and>
      (other \<noteq> memory_vectorstore vm \<and> other \<noteq> knowledge_vectorstore vm \<longrightarrow>
         collection (snd (reset_collections E vm w)) other = collection w other) \<and>
      total_chunks (get_knowledge_base_status E vm (snd (reset_collections E vm w))) = 0 \<and>
      (get_error E (snd (knowledge_vectorstore vm)) = None \<longrightarrow>
         get_knowledge_base_status E vm (snd (reset_collections E vm w)) =
           \<lparr>total_chunks = 0, file_types = Map.empty, success = True, error = None\<rparr>)"
  proof
    assume h: "reset_error E (snd (memory_vectorstore vm)) = None \<and>
      reset_error E (snd (knowledge_vectorstore vm)) = None"
    then have r: "reset_collections E vm w =
        (Inr (), w\<lparr>disk := (disk w)(memory_vectorstore vm \<mapsto> [], knowledge_vectorstore vm \<mapsto> [])\<rparr>)"
      using reset_collections_result by blast
    have k: "collection (snd (reset_collections E vm w)) (knowledge_vectorstore vm) = []"
      using r by (simp add: collection_def)
    have m: "collection (snd (reset_collections E vm w)) (memory_vectorstore vm) = []"
      using r by (simp add: collection_def)
    have o: "other \<noteq> memory_vectorstore vm \<and> other \<noteq> knowledge_vectorstore vm \<longrightarrow>
         collection (snd (reset_collections E vm w)) other = collection w other"
      using r by (simp add: collection_def)
    have f: "fst (reset_collections E vm w) = Inr ()" using r by simp
    from f k m o status_of_empty[OF k] status_of_empty_success[OF k]
    show "fst (reset_collections E vm w) = Inr () \<and>
      collection (snd (reset_collections E vm w)) (knowledge_vectorstore vm) = [] \<and>
      collection (snd (reset_collections E vm w)) (memory_vectorstore vm) = [] \<and>
      (other \<noteq> memory_vectorstore vm \<and> other \<noteq> knowledge_vectorstore vm \<longrightarrow>
         collection (snd (reset_collections E vm w)) other = collection w other) \<and>
      total_chunks (get_knowledge_base_status E vm (snd (reset_collections E vm w))) = 0 \<and>
      (get_error E (snd (knowledge_vectorstore vm)) = None \<longrightarrow>
         get_knowledge_base_status E vm (snd (reset_collections E vm w)) =
           \<lparr>total_chunks = 0, file_types = Map.empty, success = True, error = None\<rparr>)"
      by iprover
  qed
  have b: "reset_error E (snd (knowledge_vectorstore vm)) = None \<longrightarrow>
      collection (clear_knowledge_base E vm w) (knowledge_vectorstore vm) = [] \<and>
      (store \<noteq> knowledge_vectorstore vm \<longrightarrow>
         collection (clear_knowledge_base E vm w) store = collection w store) \<and>
      total_chunks (get_knowledge_base_status E vm (clear_knowledge_base E vm w)) = 0"
  proof
    assume h: "reset_error E (snd (knowledge_vectorstore vm)) = None"
    then have c: "clear_knowledge_base E vm w = w\<lparr>disk := (disk w)(knowledge_vectorstore vm \<mapsto> [])\<rparr>"
      by (simp add: clear_knowledge_base_def reset_collection_def)
    have k: "collection (clear_knowledge_base E vm w) (knowledge_vectorstore vm) = []"
      using c by (simp add: collection_def)
    have o: "store \<noteq> knowledge_vectorstore vm \<longrightarrow>
         collection (clear_knowledge_base E vm w) store = collection w store"
      using c by (simp add: collection_def)
    from k o status_of_empty[OF k]
    show "collection (clear_knowledge_base E vm w) (knowledge_vectorstore vm) = [] \<and>
      (store \<noteq> knowledge_vectorstore vm \<longrightarrow>
         collection (clear_knowledge_base E vm w) store = collection w store) \<and>
      total_chunks (get_knowledge_base_status E vm (clear_knowledge_base E vm w)) = 0"
      by iprover
  qed
  from a b show ?thesis by iprover
qed

theorem reset_collections_empties_both_witness:
  "total_chunks (get_knowledge_base_status sample_env sample_vm sample_world) = 1 \<and>
   fst (reset_collections sample_env sample_vm sample_world) = Inr () \<and>
   get_knowledge_base_status sample_env sample_vm (snd (reset_collections sample_env sample_vm sample_world)) =
     \<lparr>total_chunks = 0, file_types = Map.empty, success = True, error = None\<rparr> \<and>
   collection (snd (reset_collections sample_env sample_vm sample_world)) (memory_vectorstore sample_vm) = [] \<and>
   collection (clear_knowledge_base sample_env sample_vm sample_world) (knowledge_vectorstore sample_vm) = [] \<and>
   collection (clear_knowledge_base sample_env sample_vm sample_world) (memory_vectorstore sample_vm) =
     [\<lparr>page_content = ''input: Hi\<newline>output: Hello'', metadata = Map.empty\<rparr>] \<and>
   total_chunks (get_knowledge_base_status sample_env sample_vm
     (clear_knowledge_base sample_env sample_vm sample_world)) = 0"
proof -
  note t = reset_collections_empties_both
      [of sample_env sample_vm sample_world "(''./elsewhere'', ''notes'')" "memory_vectorstore sample_vm"]
  show ?thesis
    using t sample_world_status sample_world_memory_collection sample_vm_stores
    by (simp add: sample_env_reset_error sample_env_get_error)
qed

text \<open>
  Claim C9 as worded fails for the store manager: \<^verbatim>\<open>reset_collections\<close> is its only
  reset, and run on a world whose memory holds an exchange it leaves the memory empty.
\<close>

theorem reset_collections_empties_memory:
  "filter (\<lambda>a. take 5 a = ''reset'') VectorStoreManager_attributes = [''reset_collections''] \<and>
   collection sample_world (memory_vectorstore sample_vm) =
     [\<lparr>page_content = ''input: Hi\<newline>output: Hello'', metadata = Map.empty\<rparr>] \<and>
   fst (reset_collections sample_env sample_vm sample_world) = Inr () \<and>
   collection (snd (reset_collections sample_env sample_vm sample_world)) (memory_vectorstore sample_vm) = []"
proof -
  have r: "reset_collections sample_env sample_vm sample_world =
      (Inr (), sample_world\<lparr>disk := (disk sample_world)(memory_vectorstore sample_vm \<mapsto> [],
                                                       knowledge_vectorstore sample_vm \<mapsto> [])\<rparr>)"
    by (rule reset_collections_result) (simp_all add: sample_env_reset_error)
  have m: "collection (snd (reset_collections sample_env sample_vm sample_world)) (memory_vectorstore sample_vm) = []"
    using r sample_vm_stores by (simp add: collection_def)
  have f: "filter (\<lambda>a. take 5 a = ''reset'') VectorStoreManager_attributes = [''reset_collections'']"
    by (simp add: VectorStoreManager_attributes_def)
  show ?thesis using r m f sample_world_memory_collection by simp
qed

section \<open>The record saved to memory\<close>

lemma add_calls_append: "add_calls c (xs @ ys) = add_calls c xs @ add_calls c ys"
  by (induction xs rule: add_calls.induct) auto

lemma generate_memory:
  assumes "generate E w state = (Inr result, w')"
  shows "add_calls ''memory'' (trace w') =
           add_calls ''memory'' (trace w) @ [[memory_doc (rag_input state) (answer result)]]"
    and "collection w' rag_memory_vectorstore =
           collection w rag_memory_vectorstore @ [memory_doc (rag_input state) (answer result)]"
  using assms
  by (auto simp add: generate_def llm_invoke_def add_documents_def Let_def add_calls_append
      rag_memory_vectorstore_def collection_def
      split: sum.splits prod.splits option.splits)

lemma process_user_input_memory:
  assumes "process_user_input E vm w q = (Inr r, w')"
  shows "add_calls (snd (memory_vectorstore vm)) (trace w') =
           add_calls (snd (memory_vectorstore vm)) (trace w) @ [[memory_record q r]]"
    and "collection w' (memory_vectorstore vm) = collection w (memory_vectorstore vm) @ [memory_record q r]"
  using assms
  by (auto simp add: process_user_input_def memory_agent_invoke_def graph_nodes_def
      retrieve_memory_node_def retrieve_knowledge_node_def generate_response_node_def
      update_memory_node_def save_memory_context_def save_context_def add_documents_def
      llm_invoke_def state_get_def Let_def add_calls_append form_documents_memory_record
      collection_def
      split: sum.splits prod.splits option.splits)


lemma sample_generate:
  "fst (generate sample_env sample_world \<lparr>rag_input = ''Capital?'', rag_docs = [], rag_memory = []\<rparr>) =
     Inr \<lparr>rag_input = ''Capital?'', rag_docs = [], rag_memory = [], draft = ''Paris'', answer = ''Paris''\<rparr>"
  by (simp add: generate_def llm_invoke_def add_documents_def Let_def sample_env_llm sample_env_add_error)

lemma sample_world_trace: "trace sample_world = []"
  by (simp add: sample_world_def)

lemma sample_world_rag_memory: "collection sample_world rag_memory_vectorstore = []"
  by (simp add: sample_world_def rag_memory_vectorstore_def collection_def chroma_memory_dir_def
      chroma_kb_dir_def)

text \<open>
  Claim C8, amended. In the two-stage pipeline, a call of \<^verbatim>\<open>generate\<close> that returns
  has issued exactly one more add call to the memory collection, with exactly one
  document, which is appended to the collection: its text is \<^verbatim>\<open>Q: \<close>, the user's
  input, a newline, \<^verbatim>\<open>A: \<close> and the final answer, and its metadata is
  \<^verbatim>\<open>{source: memory}\<close>. In the single-stage pipeline, a call of
  \<open>process_user_input\<close> that returns has also issued exactly one more add call with one
  document, appended to the memory collection, but this document is the one that
  \<^verbatim>\<open>save_context\<close> forms: its text is \<^verbatim>\<open>input: \<close>, the user's input, a newline,
  \<^verbatim>\<open>output: \<close> and the answer, and it has no metadata.
\<close>

theorem memory_record_after_generation:
  "(generate E w state = (Inr result, w1) \<longrightarrow>
      add_calls ''memory'' (trace w1) =
        add_calls ''memory'' (trace w) @ [[memory_doc (rag_input state) (answer result)]] \<and>
      collection w1 rag_memory_vectorstore =
        collection w rag_memory_vectorstore @ [memory_doc (rag_input state) (answer result)] \<and>
      memory_doc (rag_input state) (answer result) =
        \<lparr>page_content = ''Q: '' @ rag_input state @ ''\<newline>A: '' @ answer result,
         metadata = [''source'' \<mapsto> ''memory'']\<rparr>) \<and>
   (process_user_input E vm w q = (Inr r, w2) \<longrightarrow>
      add_calls (snd (memory_vectorstore vm)) (trace w2) =
        add_calls (snd (memory_vectorstore vm)) (trace w) @ [[memory_record q r]] \<and>
      collection w2 (memory_vectorstore vm) = collection w (memory_vectorstore vm) @ [memory_record q r] \<and>
      memory_record q r =
        \<lparr>page_content = ''input: '' @ q @ ''\<newline>output: '' @ r, metadata = Map.empty\<rparr>)"
proof -
  have a: "generate E w state = (Inr result, w1) \<longrightarrow>
      add_calls ''memory'' (trace w1) =
        add_calls ''memory'' (trace w) @ [[memory_doc (rag_input state) (answer result)]] \<and>
      collection w1 rag_memory_vectorstore =
        collection w rag_memory_vectorstore @ [memory_doc (rag_input state) (answer result)] \<and>
      memory_doc (rag_input state) (answer result) =
        \<lparr>page_content = ''Q: '' @ rag_input state @ ''\<newline>A: '' @ answer result,
         metadata = [''source'' \<mapsto> ''memory'']\<rparr>"
    using generate_memory [of E w state result w1] by (simp add: memory_doc_def)
  have b: "process_user_input E vm w q = (Inr r, w2) \<longrightarrow>
      add_calls (snd (memory_vectorstore vm)) (trace w2) =
        add_calls (snd (memory_vectorstore vm)) (trace w) @ [[memory_record q r]] \<and>
      collection w2 (memory_vectorstore vm) = collection w (memory_vectorstore vm) @ [memory_record q r] \<and>
      memory_record q r =
        \<lparr>page_content = ''input: '' @ q @ ''\<newline>output: '' @ r, metadata = Map.empty\<rparr>"
    using process_user_input_memory [of E vm w q r w2] by (simp add: memory_record_def)
  from a b show ?thesis by iprover
qed

theorem memory_record_after_generation_witness:
  "fst (generate sample_env sample_world \<lparr>rag_input = ''Capital?'', rag_docs = [], rag_memory = []\<rparr>) =
     Inr \<lparr>rag_input = ''Capital?'', rag_docs = [], rag_memory = [], draft = ''Paris'', answer = ''Paris''\<rparr> \<and>
   add_calls ''memory''
     (trace (snd (generate sample_env sample_world \<lparr>rag_input = ''Capital?'', rag_docs = [], rag_memory = []\<rparr>))) =
     [[\<lparr>page_content = ''Q: Capital?\<newline>A: Paris'', metadata = [''source'' \<mapsto> ''memory'']\<rparr>]] \<and>
   collection (snd (generate sample_env sample_world \<lparr>rag_input = ''Capital?'', rag_docs = [], rag_memory = []\<rparr>))
       rag_memory_vectorstore =
     [\<lparr>page_content = ''Q: Capital?\<newline>A: Paris'', metadata = [''source'' \<mapsto> ''memory'']\<rparr>] \<and>
   fst (process_user_input sample_env sample_vm sample_world ''Capital?'') = Inr ''Paris'' \<and>
   add_calls ''long_term_memory''
     (trace (snd (process_user_input sample_env sample_vm sample_world ''Capital?''))) =
     [[\<lparr>page_content = ''input: Capital?\<newline>output: Paris'', metadata = Map.empty\<rparr>]]"
proof -
  have g: "generate sample_env sample_world \<lparr>rag_input = ''Capital?'', rag_docs = [], rag_memory = []\<rparr> =
      (Inr \<lparr>rag_input = ''Capital?'', rag_docs = [], rag_memory = [], draft = ''Paris'', answer = ''Paris''\<rparr>,
       snd (generate sample_env sample_world \<lparr>rag_input = ''Capital?'', rag_docs = [], rag_memory = []\<rparr>))"
    using sample_generate by (simp add: prod_eq_iff)
  have p: "process_user_input sample_env sample_vm sample_world ''Capital?'' =
      (Inr ''Paris'', snd (process_user_input sample_env sample_vm sample_world ''Capital?''))"
    using sample_env_answer by (simp add: prod_eq_iff)
  have n: "snd (memory_vectorstore sample_vm) = ''long_term_memory''" by (simp add: sample_vm_def)
  show ?thesis
    using memory_record_after_generation
        [of sample_env sample_world "\<lparr>rag_input = ''Capital?'', rag_docs = [], rag_memory = []\<rparr>"
            "\<lparr>rag_input = ''Capital?'', rag_docs = [], rag_memory = [], draft = ''Paris'', answer = ''Paris''\<rparr>"
            "snd (generate sample_env sample_world \<lparr>rag_input = ''Capital?'', rag_docs = [], rag_memory = []\<rparr>)"
            sample_vm "''Capital?''" "''Paris''"
            "snd (process_user_input sample_env sample_vm sample_world ''Capital?'')"]
      g p n sample_generate sample_env_answer sample_world_trace sample_world_rag_memory
    by simp
qed

text \<open>
  Claim C8 as worded fails for the pipeline of \<^verbatim>\<open>GraphNodes\<close>, which saves through
  \<^verbatim>\<open>save_memory_context\<close>: the record that a successful generation appends does not
  have the text \<^verbatim>\<open>Q: ... A: ...\<close>, and not the metadata \<^verbatim>\<open>{source: memory}\<close>.
\<close>

theorem pipeline_memory_record_format:
  "fst (process_user_input sample_env sample_vm sample_world ''Capital?'') = Inr ''Paris'' \<and>
   add_calls ''long_term_memory''
     (trace (snd (process_user_input sample_env sample_vm sample_world ''Capital?''))) =
     [[\<lparr>page_content = ''input: Capital?\<newline>output: Paris'', metadata = Map.empty\<rparr>]] \<and>
   \<lparr>page_content = ''input: Capital?\<newline>output: Paris'', metadata = Map.empty\<rparr> \<noteq>
     \<lparr>page_content = ''Q: Capital?\<newline>A: Paris'', metadata = [''source'' \<mapsto> ''memory'']\<rparr>"
proof -
  have p: "process_user_input sample_env sample_vm sample_world ''Capital?'' =
      (Inr ''Paris'', snd (process_user_input sample_env sample_vm sample_world ''Capital?''))"
    using sample_env_answer by (simp add: prod_eq_iff)
  have n: "snd (memory_vectorstore sample_vm) = ''long_term_memory''" by (simp add: sample_vm_def)
  show ?thesis
    using process_user_input_memory(1) [OF p] n sample_env_answer sample_world_trace
    by (simp add: memory_record_def)
qed

end
